theory Spec2Isabelle
  imports Complex_Main "HOL-Library.AList"
begin

section \<open>Numbers, keys and outcomes\<close>

text \<open>
  The lending client computes with three kinds of numbers. A \<^verbatim>\<open>Decimal\<close> (decimal.js) is
  modelled as an exact rational; a \<^verbatim>\<open>BN\<close> (bn.js, decoded from an unsigned on-chain
  integer) as a natural number; a JavaScript \<^verbatim>\<open>number\<close> as an integer where the code
  counts with it (slots) and as a rational where it holds a ratio. Rounding of decimal.js
  and of floating point is not modelled: section 7 of the specification asks for exact
  decimal arithmetic.

  A \<^verbatim>\<open>Decimal\<close> can also be NaN or an infinity (a division by zero gives one). The
  values read from a snapshot are finite and have the type \<open>Decimal\<close>. Where the source
  divides a \<^verbatim>\<open>Decimal\<close> by one that can be zero (\<^verbatim>\<open>getMaxBorrowAmount\<close> and
  \<^verbatim>\<open>getMaxWithdrawAmount\<close>), the computation is carried out on \<open>DecimalValue\<close>, which
  has the three other values and the rules of decimal.js for them. The borrow APR is
  computed with JavaScript numbers, which the model does not extend: a division by zero
  there ends with the outcome \<open>NonFinite\<close>. The other outcomes on the left of a sum are
  the \<^verbatim>\<open>throw\<close> statements of the source.
\<close>

type_synonym Decimal = rat
type_synonym PublicKey = nat

datatype error =
    ReserveNotFound
  | DepositReserveNotFound
  | NoReserveForMint
  | ElevationGroupDowngrade
  | InvalidActionType
  | BorrowRateError
  | NonFinite

text \<open>
  The imports of \<^verbatim>\<open>reserve.ts\<close> and \<^verbatim>\<open>obligation.ts\<close> from \<^verbatim>\<open>../utils\<close> and
  \<^verbatim>\<open>./utils\<close> whose values the specification does not give are parameters of the model:
  the three slot constants (positive numbers) and the rate-curve evaluator
  \<^verbatim>\<open>getBorrowRate\<close>, which may throw.
\<close>

record utils =
  SLOTS_PER_SECOND :: rat
  SLOTS_PER_YEAR :: rat
  SLOTS_PER_DAY :: int
  getBorrowRate :: "rat \<Rightarrow> (rat \<times> rat) list \<Rightarrow> error + rat"

text \<open>
  Modelled from the spec: \<^verbatim>\<open>ONE_HUNDRED_PCT_IN_BPS\<close> (in \<^verbatim>\<open>../utils\<close>, not among the
  sources). Section 3: rates are encoded as basis points (0 to 10000), and a utilization
  of 1 is 100%.
\<close>

definition ONE_HUNDRED_PCT_IN_BPS :: nat where
  "ONE_HUNDRED_PCT_IN_BPS = 10000"

text \<open>
  Modelled from the spec: \<^verbatim>\<open>new Fraction(sf).toDecimal()\<close> (class \<^verbatim>\<open>Fraction\<close> of
  \<^verbatim>\<open>./fraction\<close>, not among the sources). Sections 3 and 4.1: a scaled fraction is an
  unsigned integer scaled by \<open>2^60\<close>, and converting divides the raw integer by the scale.
\<close>

definition Fraction_toDecimal :: "nat \<Rightarrow> Decimal" where
  "Fraction_toDecimal sf = of_nat sf / 2 ^ 60"

text \<open>
  Modelled from the spec: \<^verbatim>\<open>positiveOrZero\<close> and \<^verbatim>\<open>valueOrZero\<close> (in \<^verbatim>\<open>./utils\<close>, not
  among the sources). Section 4.4: simulated values are floored at zero, and a ratio is
  0 when its denominator is 0. \<^verbatim>\<open>valueOrZero\<close> is only ever applied to a quotient
  \<^verbatim>\<open>n.div(d)\<close>, which is not finite exactly when \<open>d\<close> is zero, so the model takes the
  numerator and the denominator.
\<close>

definition positiveOrZero :: "Decimal \<Rightarrow> Decimal" where
  "positiveOrZero v = max v 0"

definition valueOrZero_div :: "Decimal \<Rightarrow> Decimal \<Rightarrow> Decimal" where
  "valueOrZero_div n d = (if d = 0 then 0 else n / d)"

section \<open>Reserve snapshot\<close>

text \<open>
  The decoded account (\<^verbatim>\<open>Reserve\<close> of the generated code) with the fields the modelled
  functions read. \<open>cumulativeBorrowRateBsf\<close> is the limb array
  \<^verbatim>\<open>cumulativeBorrowRateBsf.value\<close>; \<open>points\<close> is \<^verbatim>\<open>borrowRateCurve.points\<close>;
  \<open>lastUpdate_slot\<close> is \<^verbatim>\<open>lastUpdate.slot\<close>; \<open>borrowFeeSf\<close> is \<^verbatim>\<open>fees.borrowFeeSf\<close>.
\<close>

record CurvePointFields =
  utilizationRateBps :: nat
  borrowRateBps :: nat

record WithdrawalCaps =
  configCapacity :: nat
  currentTotal :: nat

record ReserveLiquidity =
  mintPubkey :: PublicKey
  mintDecimals :: nat
  availableAmount :: nat
  borrowedAmountSf :: nat
  accumulatedProtocolFeesSf :: nat
  accumulatedReferrerFeesSf :: nat
  pendingReferrerFeesSf :: nat
  cumulativeBorrowRateBsf :: "nat list"

record ReserveConfig =
  protocolTakeRatePct :: nat
  hostFixedInterestRateBps :: nat
  points :: "CurvePointFields list"
  elevationGroups :: "nat list"
  borrowLimit :: nat
  borrowFactorPct :: nat
  loanToValuePct :: nat
  liquidationThresholdPct :: nat
  borrowFeeSf :: nat
  depositWithdrawalCap :: WithdrawalCaps
  debtWithdrawalCap :: WithdrawalCaps
  disableUsageAsCollOutsideEmode :: nat

record Reserve =
  liquidity :: ReserveLiquidity
  config :: ReserveConfig
  lastUpdate_slot :: nat

record KaminoReserve =
  state :: Reserve
  address :: PublicKey
  tokenOraclePrice_price :: Decimal
  recentSlotDurationMs :: rat

subsection \<open>Getters\<close>

definition getBorrowedAmount :: "KaminoReserve \<Rightarrow> Decimal" where
  "getBorrowedAmount r = Fraction_toDecimal (borrowedAmountSf (liquidity (state r)))"

definition getLiquidityAvailableAmount :: "KaminoReserve \<Rightarrow> Decimal" where
  "getLiquidityAvailableAmount r = of_nat (availableAmount (liquidity (state r)))"

definition getOracleMarketPrice :: "KaminoReserve \<Rightarrow> Decimal" where
  "getOracleMarketPrice r = tokenOraclePrice_price r"

definition getAccumulatedProtocolFees :: "KaminoReserve \<Rightarrow> Decimal" where
  "getAccumulatedProtocolFees r =
     Fraction_toDecimal (accumulatedProtocolFeesSf (liquidity (state r)))"

definition getAccumulatedReferrerFees :: "KaminoReserve \<Rightarrow> Decimal" where
  "getAccumulatedReferrerFees r =
     Fraction_toDecimal (accumulatedReferrerFeesSf (liquidity (state r)))"

definition getPendingReferrerFees :: "KaminoReserve \<Rightarrow> Decimal" where
  "getPendingReferrerFees r =
     Fraction_toDecimal (pendingReferrerFeesSf (liquidity (state r)))"

definition getBorrowFee :: "KaminoReserve \<Rightarrow> Decimal" where
  "getBorrowFee r = Fraction_toDecimal (borrowFeeSf (config (state r)))"

definition getFixedHostInterestRate :: "KaminoReserve \<Rightarrow> Decimal" where
  "getFixedHostInterestRate r =
     of_nat (hostFixedInterestRateBps (config (state r))) / 10000"

definition getTotalSupply :: "KaminoReserve \<Rightarrow> Decimal" where
  "getTotalSupply r =
     getLiquidityAvailableAmount r + getBorrowedAmount r
       - getAccumulatedProtocolFees r
       - getAccumulatedReferrerFees r
       - getPendingReferrerFees r"

definition getMintFactor :: "KaminoReserve \<Rightarrow> Decimal" where
  "getMintFactor r = 10 ^ mintDecimals (liquidity (state r))"

definition getLiquidityMint :: "KaminoReserve \<Rightarrow> PublicKey" where
  "getLiquidityMint r = mintPubkey (liquidity (state r))"

definition getBorrowFactor :: "KaminoReserve \<Rightarrow> Decimal" where
  "getBorrowFactor r = of_nat (borrowFactorPct (config (state r))) / 100"

text \<open>
  \<^verbatim>\<open>Math.max(slot - lastUpdate.slot, 0)\<close>, the prefix of every slot-dependent getter.
\<close>

definition slotsElapsedSince :: "KaminoReserve \<Rightarrow> int \<Rightarrow> int" where
  "slotsElapsedSince r slot = max (slot - int (lastUpdate_slot (state r))) 0"

definition getDepositWithdrawalCapCapacity :: "KaminoReserve \<Rightarrow> Decimal" where
  "getDepositWithdrawalCapCapacity r =
     of_nat (configCapacity (depositWithdrawalCap (config (state r))))"

definition getDepositWithdrawalCapCurrent :: "utils \<Rightarrow> KaminoReserve \<Rightarrow> int \<Rightarrow> Decimal" where
  "getDepositWithdrawalCapCurrent U r slot =
     (let slotsElapsed = slotsElapsedSince r slot in
      if slotsElapsed > SLOTS_PER_DAY U then 0
      else of_nat (currentTotal (depositWithdrawalCap (config (state r)))))"

definition getDebtWithdrawalCapCapacity :: "KaminoReserve \<Rightarrow> Decimal" where
  "getDebtWithdrawalCapCapacity r =
     of_nat (configCapacity (debtWithdrawalCap (config (state r))))"

definition getDebtWithdrawalCapCurrent :: "utils \<Rightarrow> KaminoReserve \<Rightarrow> int \<Rightarrow> Decimal" where
  "getDebtWithdrawalCapCurrent U r slot =
     (let slotsElapsed = slotsElapsedSince r slot in
      if slotsElapsed > SLOTS_PER_DAY U then 0
      else of_nat (currentTotal (debtWithdrawalCap (config (state r)))))"

subsection \<open>Rate curve and borrow APR\<close>

text \<open>
  \<^verbatim>\<open>truncateBorrowCurve\<close>: the loop pushes the converted point and then breaks when the
  point's utilization is 100%.
\<close>

fun truncateBorrowCurve :: "CurvePointFields list \<Rightarrow> (rat \<times> rat) list" where
  "truncateBorrowCurve [] = []"
| "truncateBorrowCurve (p # ps) =
     (of_nat (utilizationRateBps p) / of_nat ONE_HUNDRED_PCT_IN_BPS,
      of_nat (borrowRateBps p) / of_nat ONE_HUNDRED_PCT_IN_BPS)
     # (if utilizationRateBps p = ONE_HUNDRED_PCT_IN_BPS then [] else truncateBorrowCurve ps)"

definition calculateUtilizationRatio :: "KaminoReserve \<Rightarrow> rat" where
  "calculateUtilizationRatio r =
     (let totalBorrows = getBorrowedAmount r; totalSupply = getTotalSupply r in
      if totalSupply = 0 then 0 else totalBorrows / totalSupply)"

definition slotAdjustmentFactor :: "utils \<Rightarrow> KaminoReserve \<Rightarrow> error + rat" where
  "slotAdjustmentFactor U r =
     (if SLOTS_PER_SECOND U = 0 \<or> recentSlotDurationMs r = 0 then Inl NonFinite
      else Inr (1000 / SLOTS_PER_SECOND U / recentSlotDurationMs r))"

definition calculateBorrowAPR :: "utils \<Rightarrow> KaminoReserve \<Rightarrow> error + rat" where
  "calculateBorrowAPR U r =
     (case slotAdjustmentFactor U r of
        Inl e \<Rightarrow> Inl e
      | Inr slotAdjustment \<Rightarrow>
          (let currentUtilization = calculateUtilizationRatio r;
               curve = truncateBorrowCurve (points (config (state r)))
           in case getBorrowRate U currentUtilization curve of
                Inl e \<Rightarrow> Inl e
              | Inr rate \<Rightarrow> Inr (rate * slotAdjustment)))"

subsection \<open>Interest compounding\<close>

text \<open>
  \<^verbatim>\<open>approximateCompoundedInterest\<close>: a \<^verbatim>\<open>switch\<close> on the number of elapsed slots with
  cases 0 to 4, and the third-order expansion after it for every other number.
\<close>

definition approximateCompoundedInterest :: "utils \<Rightarrow> Decimal \<Rightarrow> int \<Rightarrow> Decimal" where
  "approximateCompoundedInterest U rate elapsedSlots =
     (let base = rate / SLOTS_PER_YEAR U in
      if elapsedSlots = 0 then 1
      else if elapsedSlots = 1 then base + 1
      else if elapsedSlots = 2 then (base + 1) * (base + 1)
      else if elapsedSlots = 3 then (base + 1) * (base + 1) * (base + 1)
      else if elapsedSlots = 4 then (let pow2 = (base + 1) * (base + 1) in pow2 * pow2)
      else
        (let exp = of_int elapsedSlots;
             expMinus1 = of_int (elapsedSlots - 1);
             expMinus2 = of_int (elapsedSlots - 2);
             basePow2 = base * base;
             basePow3 = basePow2 * base;
             firstTerm = base * exp;
             secondTerm = basePow2 * exp * expMinus1 / 2;
             thirdTerm = basePow3 * exp * expMinus1 * expMinus2 / 6
         in 1 + firstTerm + secondTerm + thirdTerm))"

record CompoundResult =
  newDebt :: Decimal
  netNewDebt :: Decimal
  variableProtocolFee :: Decimal
  fixedHostFee :: Decimal
  absoluteReferralFee :: Decimal
  maxReferralFees :: Decimal
  newAccProtocolFees :: Decimal
  pendingReferralFees :: Decimal

definition compoundInterest ::
  "utils \<Rightarrow> KaminoReserve \<Rightarrow> int \<Rightarrow> rat \<Rightarrow> error + CompoundResult" where
  "compoundInterest U r slotsElapsed referralFeeBps =
     (case calculateBorrowAPR U r of
        Inl e \<Rightarrow> Inl e
      | Inr currentBorrowRate \<Rightarrow>
          (let protocolTakeRate = of_nat (protocolTakeRatePct (config (state r))) / 100;
               referralRate = referralFeeBps / 10000;
               fixedHostInterestRate = getFixedHostInterestRate r;
               compoundedInterestRate =
                 approximateCompoundedInterest U (currentBorrowRate + fixedHostInterestRate)
                   slotsElapsed;
               compoundedFixedRate =
                 approximateCompoundedInterest U fixedHostInterestRate slotsElapsed;
               previousDebt = getBorrowedAmount r;
               newDebt' = previousDebt * compoundedInterestRate;
               fixedHostFee' = previousDebt * compoundedFixedRate - previousDebt;
               netNewDebt' = newDebt' - previousDebt - fixedHostFee';
               variableProtocolFee' = netNewDebt' * protocolTakeRate;
               absoluteReferralFee' = protocolTakeRate * referralRate;
               maxReferralFees' = netNewDebt' * absoluteReferralFee';
               newAccProtocolFees' =
                 variableProtocolFee' + fixedHostFee' - maxReferralFees'
                   + getAccumulatedProtocolFees r;
               pendingReferralFees' = getPendingReferrerFees r + maxReferralFees'
           in Inr \<lparr> newDebt = newDebt',
                    netNewDebt = netNewDebt',
                    variableProtocolFee = variableProtocolFee',
                    fixedHostFee = fixedHostFee',
                    absoluteReferralFee = absoluteReferralFee',
                    maxReferralFees = maxReferralFees',
                    newAccProtocolFees = newAccProtocolFees',
                    pendingReferralFees = pendingReferralFees' \<rparr>))"

record DebtAndSupply =
  totalBorrow :: Decimal
  totalSupply :: Decimal

definition getEstimatedDebtAndSupply ::
  "utils \<Rightarrow> KaminoReserve \<Rightarrow> int \<Rightarrow> rat \<Rightarrow> error + DebtAndSupply" where
  "getEstimatedDebtAndSupply U r slot referralFeeBps =
     (let slotsElapsed = slotsElapsedSince r slot in
      if slotsElapsed = 0
      then Inr \<lparr> totalBorrow = getBorrowedAmount r, totalSupply = getTotalSupply r \<rparr>
      else
        (case compoundInterest U r slotsElapsed referralFeeBps of
           Inl e \<Rightarrow> Inl e
         | Inr c \<Rightarrow>
             (let newTotalSupply =
                    getLiquidityAvailableAmount r + newDebt c
                      - newAccProtocolFees c
                      - getAccumulatedReferrerFees r
                      - pendingReferralFees c
              in Inr \<lparr> totalBorrow = newDebt c, totalSupply = newTotalSupply \<rparr>)))"

definition getEstimatedTotalSupply ::
  "utils \<Rightarrow> KaminoReserve \<Rightarrow> int \<Rightarrow> rat \<Rightarrow> error + Decimal" where
  "getEstimatedTotalSupply U r slot referralFeeBps =
     (case getEstimatedDebtAndSupply U r slot referralFeeBps of
        Inl e \<Rightarrow> Inl e
      | Inr ds \<Rightarrow> Inr (totalSupply ds))"

subsection \<open>Cached statistics\<close>

text \<open>
  \<^verbatim>\<open>reserve.stats\<close> is set from \<^verbatim>\<open>formatReserveData(state)\<close> whenever a reserve is
  initialised or loaded, so the model computes it from the state. Only the fields the
  obligation reads are modelled.
\<close>

record ReserveDataType =
  loanToValuePct :: rat
  liquidationThreshold :: rat
  reserveBorrowLimit :: Decimal
  decimals :: nat
  borrowFactor :: nat

definition formatReserveData :: "KaminoReserve \<Rightarrow> ReserveDataType" where
  "formatReserveData r =
     \<lparr> loanToValuePct = of_nat (ReserveConfig.loanToValuePct (config (state r))) / 100,
       liquidationThreshold =
         of_nat (ReserveConfig.liquidationThresholdPct (config (state r))) / 100,
       reserveBorrowLimit = of_nat (ReserveConfig.borrowLimit (config (state r))),
       decimals = mintDecimals (liquidity (state r)),
       borrowFactor = borrowFactorPct (config (state r)) \<rparr>"

definition stats :: "KaminoReserve \<Rightarrow> ReserveDataType" where
  "stats r = formatReserveData r"

subsection \<open>Cumulative borrow rate of a reserve\<close>

text \<open>
  \<^verbatim>\<open>KaminoReserve.getCumulativeBorrowRate\<close>. The spread copies the limb array before
  \<^verbatim>\<open>reverse()\<close>; \<^verbatim>\<open>prev.iadd(curr).ishrn(64)\<close> adds to the accumulator in place and
  shifts it right by 64 bits in place. The result is the value and the reserve as the
  call leaves it.
\<close>

definition KaminoReserve_getCumulativeBorrowRate ::
  "KaminoReserve \<Rightarrow> Decimal \<times> KaminoReserve" where
  "KaminoReserve_getCumulativeBorrowRate r =
     (let rates = rev (ReserveLiquidity.cumulativeBorrowRateBsf (liquidity (state r)));
          accSf = foldl (\<lambda>prev curr. (prev + curr) div 2 ^ 64) 0 rates
      in (Fraction_toDecimal accSf, r))"

section \<open>Obligation snapshot\<close>

text \<open>
  A \<^verbatim>\<open>Map\<close> keyed by public key (\<^verbatim>\<open>PubkeyHashMap\<close>) is a list of entries in insertion
  order with one entry per key: \<^verbatim>\<open>get\<close> is \<open>map_of\<close>, \<^verbatim>\<open>set\<close> is \<open>AList.update\<close>
  (an existing key keeps its place, a new one goes last), \<^verbatim>\<open>values()\<close> is \<open>map snd\<close>.
\<close>

record Position =
  reserveAddress :: PublicKey
  mintAddress :: PublicKey
  amount :: Decimal
  marketValueRefreshed :: Decimal

type_synonym PositionMap = "(PublicKey \<times> Position) list"

record ObligationStats =
  userTotalDeposit :: Decimal
  userTotalBorrow :: Decimal
  userTotalBorrowBorrowFactorAdjusted :: Decimal
  borrowLimit :: Decimal
  borrowLiquidationLimit :: Decimal
  borrowUtilization :: Decimal
  netAccountValue :: Decimal
  loanToValue :: Decimal
  liquidationLtv :: Decimal
  leverage :: Decimal
  potentialElevationGroupUpdate :: "nat list"

text \<open>
  The decoded borrow entry \<^verbatim>\<open>ObligationLiquidity\<close>; \<open>cumulativeBorrowRateBsf\<close> is again
  the limb array \<^verbatim>\<open>cumulativeBorrowRateBsf.value\<close>.
\<close>

record ObligationLiquidity =
  borrowReserve :: PublicKey
  cumulativeBorrowRateBsf :: "nat list"
  borrowedAmountSf :: nat

text \<open>
  The obligation object: \<open>elevationGroup\<close> is \<^verbatim>\<open>this.state.elevationGroup\<close>, the other
  fields are those of the class.
\<close>

record KaminoObligation =
  elevationGroup :: nat
  deposits :: PositionMap
  borrows :: PositionMap
  refreshedStats :: ObligationStats

text \<open>
  Modelled from the spec: the market (\<^verbatim>\<open>KaminoMarket\<close> of \<^verbatim>\<open>./market\<close>, not among the
  sources). Section 6: a lookup capability that resolves a reserve by mint and an
  elevation-group configuration by id. \<open>ltvPct\<close> and \<open>liquidationThresholdPct\<close> are the
  fields of the configuration the obligation reads.
\<close>

record ElevationGroup =
  ltvPct :: nat
  liquidationThresholdPct :: nat

record KaminoMarket =
  getReserveByMint :: "PublicKey \<Rightarrow> KaminoReserve option"
  getElevationGroup :: "nat \<Rightarrow> ElevationGroup"

subsection \<open>Cumulative borrow rate of a borrow\<close>

text \<open>
  \<^verbatim>\<open>KaminoObligation.getCumulativeBorrowRate\<close>. \<^verbatim>\<open>Array.prototype.reverse\<close> reverses the
  stored array in place and returns it; \<^verbatim>\<open>accSf.add(value)\<close> returns a new number that
  is assigned; \<^verbatim>\<open>accSf.shrn(64)\<close> returns a shifted copy, which the loop drops. The
  result is the value and the borrow entry as the call leaves it.
\<close>

definition KaminoObligation_getCumulativeBorrowRate ::
  "ObligationLiquidity \<Rightarrow> Decimal \<times> ObligationLiquidity" where
  "KaminoObligation_getCumulativeBorrowRate borrow =
     (let reversed = rev (cumulativeBorrowRateBsf borrow);
          accSf = foldl (\<lambda>accSf v. accSf + v) 0 reversed
      in (Fraction_toDecimal accSf, borrow \<lparr> cumulativeBorrowRateBsf := reversed \<rparr>))"

subsection \<open>Elevation groups of a set of reserves\<close>

text \<open>
  \<^verbatim>\<open>getElevationGroupsForReserves\<close>: the first pair of loops counts, in a \<^verbatim>\<open>Map\<close>, every
  non-zero entry of every reserve's \<^verbatim>\<open>elevationGroups\<close>; the second keeps the groups
  whose count is the number of reserves.
\<close>

definition countElevationGroup :: "(nat \<times> nat) list \<Rightarrow> nat \<Rightarrow> (nat \<times> nat) list" where
  "countElevationGroup elevationGroupsCounts g =
     (if g \<noteq> 0 then
        (case map_of elevationGroupsCounts g of
           Some count \<Rightarrow>
             if count \<noteq> 0 then AList.update g (count + 1) elevationGroupsCounts
             else AList.update g 1 elevationGroupsCounts
         | None \<Rightarrow> AList.update g 1 elevationGroupsCounts)
      else elevationGroupsCounts)"

text \<open>The count the map holds for a group, 0 when it holds none.\<close>

definition storedCount :: "(nat \<times> nat) list \<Rightarrow> nat \<Rightarrow> nat" where
  "storedCount m g = (case map_of m g of None \<Rightarrow> 0 | Some c \<Rightarrow> c)"

definition countElevationGroups :: "KaminoReserve list \<Rightarrow> (nat \<times> nat) list" where
  "countElevationGroups rs =
     fold (\<lambda>reserve counts.
             fold (\<lambda>g m. countElevationGroup m g) (elevationGroups (config (state reserve)))
               counts)
       rs []"

definition getElevationGroupsForReserves :: "KaminoReserve list \<Rightarrow> nat list" where
  "getElevationGroupsForReserves rs =
     map fst (filter (\<lambda>(group, count). count = length rs) (countElevationGroups rs))"

subsection \<open>Simulation of an action\<close>

text \<open>
  Modelled from the spec: \<^verbatim>\<open>ActionType\<close> (in \<^verbatim>\<open>./action\<close>, not among the sources).
  Section 9 lists its tags: deposit, withdraw, borrow, repay, depositAndBorrow,
  repayAndWithdraw, mint and redeem.
\<close>

datatype ActionType =
    Deposit | Withdraw | Borrow | Repay | DepositAndBorrow | RepayAndWithdraw | Mint | Redeem

text \<open>
  A loop that assigns every matching element to a variable that starts undefined, with
  no \<^verbatim>\<open>break\<close>: the variable ends as the last match.
\<close>

definition lastMatching :: "('a \<Rightarrow> bool) \<Rightarrow> 'a list \<Rightarrow> 'a option" where
  "lastMatching P xs = fold (\<lambda>x found. if P x then Some x else found) xs None"

text \<open>\<^verbatim>\<open>new PubkeyHashMap([...m.entries()])\<close>: a new map filled entry by entry.\<close>

definition PubkeyHashMap_new :: "(PublicKey \<times> 'v) list \<Rightarrow> (PublicKey \<times> 'v) list" where
  "PubkeyHashMap_new entries = fold (\<lambda>(k, v) m. AList.update k v m) entries []"

text \<open>
  The three simulation methods read the obligation \<^verbatim>\<open>this\<close> and assign to none of its
  fields; they copy the statistics, the maps and the position they change. Each returns
  its outcome and the obligation as the call leaves it. A successful outcome holds the
  components of the returned object: \<open>(stats, borrows)\<close>, \<open>(stats, deposits)\<close> and
  \<open>(stats, deposits, borrows)\<close>.
\<close>

definition calculateSimulatedBorrow ::
  "KaminoObligation \<Rightarrow> ObligationStats \<Rightarrow> PositionMap \<Rightarrow> Decimal \<Rightarrow> PublicKey
     \<Rightarrow> (PublicKey \<times> KaminoReserve) list
     \<Rightarrow> (error + ObligationStats \<times> PositionMap) \<times> KaminoObligation" where
  "calculateSimulatedBorrow this oldStats oldBorrows borrowAmount mint reserves =
     (let newStats = oldStats;
          newBorrows = PubkeyHashMap_new oldBorrows;
          found = lastMatching (\<lambda>oldBorrow. mintAddress oldBorrow = mint) (map snd oldBorrows);
          reserve =
            lastMatching (\<lambda>kaminoReserve. getLiquidityMint kaminoReserve = mint)
              (map snd reserves)
      in case reserve of
           None \<Rightarrow> (Inl NoReserveForMint, this)
         | Some reserve \<Rightarrow>
             (let borrowPosition =
                    (case found of
                       Some oldBorrow \<Rightarrow> oldBorrow
                     | None \<Rightarrow>
                         \<lparr> reserveAddress = address reserve, mintAddress = mint, amount = 0,
                           marketValueRefreshed = 0 \<rparr>)
              in if elevationGroup this \<notin> set (elevationGroups (config (state reserve)))
                 then (Inl ElevationGroupDowngrade, this)
                 else
                   (let borrowFactor' =
                          (if elevationGroup this \<noteq> 0 then 1
                           else of_nat (borrowFactor (stats reserve)) / 100);
                        borrowValueUSD =
                          borrowAmount * getOracleMarketPrice reserve / getMintFactor reserve;
                        borrowValueBorrowFactorAdjustedUSD = borrowValueUSD * borrowFactor';
                        newStats = newStats
                          \<lparr> userTotalBorrow :=
                              positiveOrZero (userTotalBorrow newStats + borrowValueUSD) \<rparr>;
                        newStats = newStats
                          \<lparr> userTotalBorrowBorrowFactorAdjusted :=
                              positiveOrZero
                                (userTotalBorrowBorrowFactorAdjusted newStats
                                  + borrowValueBorrowFactorAdjustedUSD) \<rparr>;
                        borrowPosition = borrowPosition
                          \<lparr> amount := positiveOrZero (amount borrowPosition + borrowAmount) \<rparr>;
                        borrowPosition = borrowPosition \<lparr> mintAddress := mint \<rparr>;
                        borrowPosition = borrowPosition
                          \<lparr> marketValueRefreshed :=
                              positiveOrZero
                                (marketValueRefreshed borrowPosition + borrowValueUSD) \<rparr>;
                        newBorrows =
                          AList.update (reserveAddress borrowPosition) borrowPosition newBorrows
                    in (Inr (newStats, newBorrows), this))))"

definition calculateSimulatedDeposit ::
  "KaminoObligation \<Rightarrow> ObligationStats \<Rightarrow> PositionMap \<Rightarrow> Decimal \<Rightarrow> PublicKey
     \<Rightarrow> (PublicKey \<times> KaminoReserve) list \<Rightarrow> KaminoMarket
     \<Rightarrow> (error + ObligationStats \<times> PositionMap) \<times> KaminoObligation" where
  "calculateSimulatedDeposit this oldStats oldDeposits amount' mint reserves market =
     (let newStats = oldStats;
          newDeposits = PubkeyHashMap_new oldDeposits;
          found =
            lastMatching (\<lambda>oldDeposit. mintAddress oldDeposit = mint) (map snd oldDeposits);
          reserve =
            lastMatching (\<lambda>kaminoReserve. getLiquidityMint kaminoReserve = mint)
              (map snd reserves)
      in case reserve of
           None \<Rightarrow> (Inl NoReserveForMint, this)
         | Some reserve \<Rightarrow>
             (let depositPosition =
                    (case found of
                       Some oldDeposit \<Rightarrow> oldDeposit
                     | None \<Rightarrow>
                         \<lparr> reserveAddress = address reserve, mintAddress = mint, amount = 0,
                           marketValueRefreshed = 0 \<rparr>);
                  loanToValue' =
                    (if elevationGroup this \<noteq> 0
                     then of_nat (ltvPct (getElevationGroup market (elevationGroup this))) / 100
                     else loanToValuePct (stats reserve));
                  liqThreshold =
                    (if elevationGroup this \<noteq> 0
                     then of_nat (liquidationThresholdPct
                                   (getElevationGroup market (elevationGroup this))) / 100
                     else liquidationThreshold (stats reserve))
              in if elevationGroup this \<notin> set (elevationGroups (config (state reserve)))
                 then (Inl ElevationGroupDowngrade, this)
                 else
                   (let supplyAmount = amount';
                        supplyAmountMultiplierUSD =
                          supplyAmount * getOracleMarketPrice reserve
                            / 10 ^ decimals (stats reserve);
                        newStats = newStats
                          \<lparr> userTotalDeposit :=
                              positiveOrZero
                                (userTotalDeposit newStats + supplyAmountMultiplierUSD) \<rparr>;
                        newStats = newStats
                          \<lparr> borrowLimit :=
                              positiveOrZero
                                (borrowLimit newStats
                                  + supplyAmountMultiplierUSD * loanToValue') \<rparr>;
                        newStats = newStats
                          \<lparr> borrowLiquidationLimit :=
                              positiveOrZero
                                (borrowLiquidationLimit newStats
                                  + supplyAmountMultiplierUSD * liqThreshold) \<rparr>;
                        newStats = newStats
                          \<lparr> liquidationLtv :=
                              valueOrZero_div (borrowLiquidationLimit newStats)
                                (userTotalDeposit newStats) \<rparr>;
                        depositPosition = depositPosition
                          \<lparr> amount := positiveOrZero (amount depositPosition + amount') \<rparr>;
                        depositPosition = depositPosition \<lparr> mintAddress := mint \<rparr>;
                        depositPosition = depositPosition
                          \<lparr> marketValueRefreshed :=
                              positiveOrZero
                                (marketValueRefreshed depositPosition
                                  + supplyAmount * getOracleMarketPrice reserve
                                      / getMintFactor reserve) \<rparr>;
                        newDeposits =
                          AList.update (reserveAddress depositPosition) depositPosition
                            newDeposits
                    in (Inr (newStats, newDeposits), this))))"

text \<open>
  \<^verbatim>\<open>getSimulatedObligationStats\<close>: the \<^verbatim>\<open>switch\<close> on the action (\<open>simulatedLegs\<close>), then
  the three assignments that follow it.
\<close>

definition simulatedLegs ::
  "KaminoObligation \<Rightarrow> Decimal \<Rightarrow> ActionType \<Rightarrow> PublicKey \<Rightarrow> KaminoMarket
     \<Rightarrow> (PublicKey \<times> KaminoReserve) list
     \<Rightarrow> (error + ObligationStats \<times> PositionMap \<times> PositionMap) \<times> KaminoObligation" where
  "simulatedLegs this amount' action mint market reserves =
     (let newDeposits = PubkeyHashMap_new (deposits this);
          newBorrows = PubkeyHashMap_new (borrows this)
      in case action of
           Deposit \<Rightarrow>
             (case calculateSimulatedDeposit this (refreshedStats this) (deposits this)
                     amount' mint reserves market of
                (Inl e, this1) \<Rightarrow> (Inl e, this1)
              | (Inr (stats1, deposits1), this1) \<Rightarrow>
                  (Inr (stats1, deposits1, newBorrows), this1))
         | Borrow \<Rightarrow>
             (case calculateSimulatedBorrow this (refreshedStats this) (borrows this)
                     amount' mint reserves of
                (Inl e, this1) \<Rightarrow> (Inl e, this1)
              | (Inr (stats1, borrows1), this1) \<Rightarrow>
                  (Inr (stats1, newDeposits, borrows1), this1))
         | Repay \<Rightarrow>
             (case calculateSimulatedBorrow this (refreshedStats this) (borrows this)
                     (- amount') mint reserves of
                (Inl e, this1) \<Rightarrow> (Inl e, this1)
              | (Inr (stats1, borrows1), this1) \<Rightarrow>
                  (Inr (stats1, newDeposits, borrows1), this1))
         | Withdraw \<Rightarrow>
             (case calculateSimulatedDeposit this (refreshedStats this) (deposits this)
                     (- amount') mint reserves market of
                (Inl e, this1) \<Rightarrow> (Inl e, this1)
              | (Inr (stats1, deposits1), this1) \<Rightarrow>
                  (Inr (stats1, deposits1, newBorrows), this1))
         | DepositAndBorrow \<Rightarrow>
             (case calculateSimulatedDeposit this (refreshedStats this) (deposits this)
                     amount' mint reserves market of
                (Inl e, this1) \<Rightarrow> (Inl e, this1)
              | (Inr (statsAfterDeposit, deposits1), this1) \<Rightarrow>
                  (case calculateSimulatedBorrow this1 statsAfterDeposit (borrows this1)
                          amount' mint reserves of
                     (Inl e, this2) \<Rightarrow> (Inl e, this2)
                   | (Inr (stats2, borrows2), this2) \<Rightarrow>
                       (Inr (stats2, deposits1, borrows2), this2)))
         | RepayAndWithdraw \<Rightarrow>
             (case calculateSimulatedBorrow this (refreshedStats this) (borrows this)
                     (- amount') mint reserves of
                (Inl e, this1) \<Rightarrow> (Inl e, this1)
              | (Inr (statsAfterRepay, borrows1), this1) \<Rightarrow>
                  (case calculateSimulatedDeposit this1 statsAfterRepay (deposits this1)
                          amount' mint reserves market of
                     (Inl e, this2) \<Rightarrow> (Inl e, this2)
                   | (Inr (statsAfterWithdraw, deposits2), this2) \<Rightarrow>
                       (Inr (statsAfterWithdraw, deposits2, borrows1), this2)))
         | _ \<Rightarrow> (Inl InvalidActionType, this))"

definition getSimulatedObligationStats ::
  "KaminoObligation \<Rightarrow> Decimal \<Rightarrow> ActionType \<Rightarrow> PublicKey \<Rightarrow> KaminoMarket
     \<Rightarrow> (PublicKey \<times> KaminoReserve) list
     \<Rightarrow> (error + ObligationStats \<times> PositionMap \<times> PositionMap) \<times> KaminoObligation" where
  "getSimulatedObligationStats this amount' action mint market reserves =
     (case simulatedLegs this amount' action mint market reserves of
        (Inl e, this1) \<Rightarrow> (Inl e, this1)
      | (Inr (newStats, newDeposits, newBorrows), this1) \<Rightarrow>
          (let newStats = newStats
                 \<lparr> netAccountValue := userTotalDeposit newStats - userTotalBorrow newStats \<rparr>;
               newStats = newStats
                 \<lparr> loanToValue :=
                     valueOrZero_div (userTotalBorrowBorrowFactorAdjusted newStats)
                       (userTotalDeposit newStats) \<rparr>;
               newStats = newStats
                 \<lparr> leverage :=
                     valueOrZero_div (userTotalDeposit newStats) (netAccountValue newStats) \<rparr>
           in (Inr (newStats, newDeposits, newBorrows), this1)))"

text \<open>
  The two conditions under which a simulation throws: no reserve of the supplied map has
  the requested liquidity mint; the target reserve (the last one of the map with that
  mint) does not have the obligation's elevation group among its \<^verbatim>\<open>elevationGroups\<close>.
\<close>

definition noReserveFor :: "PublicKey \<Rightarrow> (PublicKey \<times> KaminoReserve) list \<Rightarrow> bool" where
  "noReserveFor mint reserves \<longleftrightarrow>
     (\<forall>r \<in> set (map snd reserves). getLiquidityMint r \<noteq> mint)"

definition groupMismatch ::
  "KaminoObligation \<Rightarrow> PublicKey \<Rightarrow> (PublicKey \<times> KaminoReserve) list \<Rightarrow> bool" where
  "groupMismatch this mint reserves \<longleftrightarrow>
     (\<exists>r. lastMatching (\<lambda>r. getLiquidityMint r = mint) (map snd reserves) = Some r
          \<and> elevationGroup this \<notin> set (elevationGroups (config (state r))))"

subsection \<open>The relational operator on two Decimal objects\<close>

text \<open>
  \<^verbatim>\<open>getMaxWithdrawAmount\<close> compares two \<^verbatim>\<open>Decimal\<close> objects with JavaScript's \<^verbatim>\<open>>=\<close>.
  The operator converts each object to a primitive by calling its \<^verbatim>\<open>valueOf\<close>;
  \<^verbatim>\<open>Decimal.prototype.valueOf\<close> returns the number as a string (decimal notation, or
  exponential notation when the exponent is at most -7 or at least 21); and two strings
  are compared code unit by code unit, a proper prefix being smaller.

  \<open>decimalScale\<close> finds the digits: the least power of ten that makes the value an
  integer. No \<^verbatim>\<open>Decimal\<close> has more digits than the configured precision; a rational
  with no finite expansion, which the model's type also holds, is cut after 60
  fractional digits.
\<close>

definition digitChar :: "nat \<Rightarrow> char" where
  "digitChar d = ''0123456789'' ! d"

fun natToString :: "nat \<Rightarrow> string" where
  "natToString n =
     (if n < 10 then [digitChar n] else natToString (n div 10) @ [digitChar (n mod 10)])"

definition intToString :: "int \<Rightarrow> string" where
  "intToString i = (if i < 0 then ''-'' @ natToString (nat (- i)) else natToString (nat i))"

fun decimalScale :: "nat \<Rightarrow> rat \<Rightarrow> nat \<Rightarrow> nat \<times> nat" where
  "decimalScale 0 x s = (nat \<lfloor>x\<rfloor>, s)"
| "decimalScale (Suc fuel) x s =
     (if of_int \<lfloor>x\<rfloor> = x then (nat \<lfloor>x\<rfloor>, s) else decimalScale fuel (x * 10) (Suc s))"

definition stripTrailingZeros :: "string \<Rightarrow> string" where
  "stripTrailingZeros str = rev (dropWhile (\<lambda>c. c = CHR ''0'') (rev str))"

text \<open>\<^verbatim>\<open>finiteToString\<close> of decimal.js, for a positive value.\<close>

definition finiteToString :: "rat \<Rightarrow> string" where
  "finiteToString x =
     (let (m, s) = decimalScale 60 x 0;
          allDigits = natToString m;
          e = int (length allDigits) - 1 - int s;
          str = stripTrailingZeros allDigits;
          len = int (length str)
      in if e \<le> - 7 \<or> e \<ge> 21 then
           (if len > 1 then take 1 str @ ''.'' @ drop 1 str else str)
             @ (if e < 0 then ''e'' else ''e+'') @ intToString e
         else if e < 0 then ''0.'' @ replicate (nat (- e - 1)) CHR ''0'' @ str
         else if e \<ge> len then str @ replicate (nat (e + 1 - len)) CHR ''0''
         else if e + 1 < len then take (nat (e + 1)) str @ ''.'' @ drop (nat (e + 1)) str
         else str)"

definition Decimal_valueOf :: "Decimal \<Rightarrow> string" where
  "Decimal_valueOf x =
     (if x = 0 then ''0''
      else if x < 0 then ''-'' @ finiteToString (- x)
      else finiteToString x)"

fun jsStringLess :: "string \<Rightarrow> string \<Rightarrow> bool" where
  "jsStringLess [] [] = False"
| "jsStringLess [] (y # ys) = True"
| "jsStringLess (x # xs) [] = False"
| "jsStringLess (x # xs) (y # ys) =
     (if (of_char x :: nat) < of_char y then True
      else if (of_char y :: nat) < of_char x then False
      else jsStringLess xs ys)"

definition Decimal_greaterOrEqual :: "Decimal \<Rightarrow> Decimal \<Rightarrow> bool" where
  "Decimal_greaterOrEqual a b \<longleftrightarrow> \<not> jsStringLess (Decimal_valueOf a) (Decimal_valueOf b)"

subsection \<open>Decimal values that are not finite\<close>

text \<open>
  The values of decimal.js: a finite number, the two infinities and NaN. decimal.js also
  has a negative zero, which differs from zero only as a divisor; the divisors that can
  be zero here (the borrow factor and the oracle price) are read from the snapshot, where
  zero is the positive one, so the model has one zero.

  \<^verbatim>\<open>x.div(y)\<close>: NaN when either is NaN, when both are zero or both infinite; an infinity
  with the product of the signs when only \<open>y\<close> is zero or only \<open>x\<close> is infinite; zero when
  only \<open>y\<close> is infinite. \<^verbatim>\<open>x.mul(y)\<close>: NaN when either is NaN or when one is zero and the
  other infinite. \<^verbatim>\<open>x.sub(y)\<close>: NaN when either is NaN or when both are the same infinity.
  \<^verbatim>\<open>x.gt(y)\<close> and \<^verbatim>\<open>x.lt(y)\<close> are false when either is NaN.
\<close>

datatype DecimalValue = Finite Decimal | PosInfinity | NegInfinity | NaN

fun Decimal_div :: "DecimalValue \<Rightarrow> DecimalValue \<Rightarrow> DecimalValue" where
  "Decimal_div NaN y = NaN"
| "Decimal_div x NaN = NaN"
| "Decimal_div (Finite a) (Finite b) =
     (if b = 0 then (if a = 0 then NaN else if 0 < a then PosInfinity else NegInfinity)
      else Finite (a / b))"
| "Decimal_div (Finite a) y = Finite 0"
| "Decimal_div PosInfinity (Finite b) = (if b < 0 then NegInfinity else PosInfinity)"
| "Decimal_div NegInfinity (Finite b) = (if b < 0 then PosInfinity else NegInfinity)"
| "Decimal_div x y = NaN"

fun Decimal_mul :: "DecimalValue \<Rightarrow> DecimalValue \<Rightarrow> DecimalValue" where
  "Decimal_mul NaN y = NaN"
| "Decimal_mul x NaN = NaN"
| "Decimal_mul (Finite a) (Finite b) = Finite (a * b)"
| "Decimal_mul (Finite a) PosInfinity =
     (if a = 0 then NaN else if a < 0 then NegInfinity else PosInfinity)"
| "Decimal_mul (Finite a) NegInfinity =
     (if a = 0 then NaN else if a < 0 then PosInfinity else NegInfinity)"
| "Decimal_mul PosInfinity (Finite b) =
     (if b = 0 then NaN else if b < 0 then NegInfinity else PosInfinity)"
| "Decimal_mul NegInfinity (Finite b) =
     (if b = 0 then NaN else if b < 0 then PosInfinity else NegInfinity)"
| "Decimal_mul PosInfinity PosInfinity = PosInfinity"
| "Decimal_mul PosInfinity NegInfinity = NegInfinity"
| "Decimal_mul NegInfinity PosInfinity = NegInfinity"
| "Decimal_mul NegInfinity NegInfinity = PosInfinity"

fun Decimal_sub :: "DecimalValue \<Rightarrow> DecimalValue \<Rightarrow> DecimalValue" where
  "Decimal_sub NaN y = NaN"
| "Decimal_sub x NaN = NaN"
| "Decimal_sub (Finite a) (Finite b) = Finite (a - b)"
| "Decimal_sub (Finite a) PosInfinity = NegInfinity"
| "Decimal_sub (Finite a) NegInfinity = PosInfinity"
| "Decimal_sub PosInfinity PosInfinity = NaN"
| "Decimal_sub PosInfinity y = PosInfinity"
| "Decimal_sub NegInfinity NegInfinity = NaN"
| "Decimal_sub NegInfinity y = NegInfinity"

fun Decimal_gt :: "DecimalValue \<Rightarrow> DecimalValue \<Rightarrow> bool" where
  "Decimal_gt NaN y = False"
| "Decimal_gt x NaN = False"
| "Decimal_gt (Finite a) (Finite b) = (b < a)"
| "Decimal_gt (Finite a) PosInfinity = False"
| "Decimal_gt (Finite a) NegInfinity = True"
| "Decimal_gt PosInfinity PosInfinity = False"
| "Decimal_gt PosInfinity y = True"
| "Decimal_gt NegInfinity y = False"

definition Decimal_lt :: "DecimalValue \<Rightarrow> DecimalValue \<Rightarrow> bool" where
  "Decimal_lt x y = Decimal_gt y x"

text \<open>
  \<^verbatim>\<open>Decimal.min(x, y1, ..., yn)\<close> and \<^verbatim>\<open>Decimal.max(x, y1, ..., yn)\<close> keep a current value,
  first \<open>x\<close>, and go through the other arguments: an argument that is NaN becomes the
  value and ends the loop; otherwise the argument replaces the value when the value is
  greater (for the minimum) or less (for the maximum) than it. A value that is NaN is
  neither, so once NaN the value stays NaN, and the fold below, which does not end early,
  returns the same.
\<close>

definition Decimal_min :: "DecimalValue \<Rightarrow> DecimalValue list \<Rightarrow> DecimalValue" where
  "Decimal_min x ys
     = foldl (\<lambda>x y. if y = NaN then y else if Decimal_gt x y then y else x) x ys"

definition Decimal_max :: "DecimalValue \<Rightarrow> DecimalValue list \<Rightarrow> DecimalValue" where
  "Decimal_max x ys
     = foldl (\<lambda>x y. if y = NaN then y else if Decimal_lt x y then y else x) x ys"

subsection \<open>Largest borrow and largest withdrawal\<close>

text \<open>
  Both functions return a \<^verbatim>\<open>Decimal\<close> that need not be finite. The differences and the
  quotients of two finite values by a non-zero one are computed on \<open>Decimal\<close>; from the
  first division by a value that can be zero on, the computation is on \<open>DecimalValue\<close>.
\<close>

definition getDepositByReserve :: "KaminoObligation \<Rightarrow> PublicKey \<Rightarrow> Position option" where
  "getDepositByReserve this reserve = map_of (deposits this) reserve"

definition getMaxBorrowAmount ::
  "utils \<Rightarrow> KaminoObligation \<Rightarrow> KaminoMarket \<Rightarrow> PublicKey \<Rightarrow> int
     \<Rightarrow> error + DecimalValue" where
  "getMaxBorrowAmount U this market tokenMint slot =
     (case getReserveByMint market tokenMint of
        None \<Rightarrow> Inl ReserveNotFound
      | Some reserve \<Rightarrow>
          (let elevationGroupActivated =
                 (elevationGroup this \<in> set (elevationGroups (config (state reserve)))
                  \<and> elevationGroup this \<noteq> 0);
               reserveBorrowFactor = getBorrowFactor reserve;
               borrowFactor' = (if elevationGroupActivated then 1 else reserveBorrowFactor);
               maxObligationBorrowPower =
                 Decimal_mul
                   (Decimal_div
                      (Decimal_div
                         (Finite (borrowLimit (refreshedStats this)
                                    - userTotalBorrowBorrowFactorAdjusted (refreshedStats this)))
                         (Finite borrowFactor'))
                      (Finite (getOracleMarketPrice reserve)))
                   (Finite (getMintFactor reserve));
               reserveAvailableAmount = getLiquidityAvailableAmount reserve;
               reserveBorrowCapRemained =
                 reserveBorrowLimit (stats reserve) - getBorrowedAmount reserve;
               reserveBorrowCapRemained =
                 (if disableUsageAsCollOutsideEmode (config (state reserve)) = 1
                     \<and> \<not> elevationGroupActivated
                  then 0 else reserveBorrowCapRemained);
               maxBorrowAmount =
                 Decimal_min maxObligationBorrowPower
                   [Finite reserveAvailableAmount, Finite reserveBorrowCapRemained];
               debtWithdrawalCap' =
                 getDebtWithdrawalCapCapacity reserve
                   - getDebtWithdrawalCapCurrent U reserve slot;
               maxBorrowAmount =
                 (if getDebtWithdrawalCapCapacity reserve > 0
                  then Decimal_min maxBorrowAmount [Finite debtWithdrawalCap']
                  else maxBorrowAmount);
               originationFeeRate = getBorrowFee reserve;
               originationFeeRate =
                 Decimal_div (Finite originationFeeRate) (Finite (originationFeeRate + 1));
               borrowFee = Decimal_mul maxBorrowAmount originationFeeRate;
               maxBorrowAmount = Decimal_sub maxBorrowAmount borrowFee
           in Inr (Decimal_max (Finite 0) [maxBorrowAmount])))"

definition getMaxWithdrawAmount ::
  "utils \<Rightarrow> KaminoObligation \<Rightarrow> KaminoMarket \<Rightarrow> PublicKey \<Rightarrow> int
     \<Rightarrow> error + DecimalValue" where
  "getMaxWithdrawAmount U this market tokenMint slot =
     (case getReserveByMint market tokenMint of
        None \<Rightarrow> Inl ReserveNotFound
      | Some reserve \<Rightarrow>
          (case getDepositByReserve this (address reserve) of
             None \<Rightarrow> Inl DepositReserveNotFound
           | Some userDepositPosition \<Rightarrow>
               (let userDepositPositionAmount = amount userDepositPosition
                in if userTotalBorrowBorrowFactorAdjusted (refreshedStats this) = 0
                   then Inr (Finite userDepositPositionAmount)
                   else
                     (let elevationGroupActivated =
                            (elevationGroup this
                               \<in> set (elevationGroups (config (state reserve)))
                             \<and> elevationGroup this \<noteq> 0);
                          reserveMaxLtv =
                            (if elevationGroupActivated
                             then of_nat (ltvPct (getElevationGroup market
                                                   (elevationGroup this))) / 100
                             else loanToValuePct (stats reserve))
                      in if Decimal_greaterOrEqual
                              (userTotalBorrowBorrowFactorAdjusted (refreshedStats this))
                              (borrowLimit (refreshedStats this))
                         then Inr (Finite 0)
                         else
                           (let maxWithdrawValue =
                                  (if reserveMaxLtv = 0 then userDepositPositionAmount
                                   else (borrowLimit (refreshedStats this)
                                           - userTotalBorrowBorrowFactorAdjusted
                                               (refreshedStats this))
                                          / reserveMaxLtv * (995 / 1000));
                                maxWithdrawAmount =
                                  Decimal_mul
                                    (Decimal_div (Finite maxWithdrawValue)
                                       (Finite (getOracleMarketPrice reserve)))
                                    (Finite (getMintFactor reserve));
                                reserveAvailableLiquidity =
                                  getLiquidityAvailableAmount reserve;
                                withdrawalCapRemained =
                                  getDepositWithdrawalCapCapacity reserve
                                    - getDepositWithdrawalCapCurrent U reserve slot
                            in Inr (Decimal_max (Finite 0)
                                     [Decimal_min (Finite userDepositPositionAmount)
                                        [maxWithdrawAmount,
                                         Finite reserveAvailableLiquidity,
                                         Finite withdrawalCapRemained]]))))))"

section \<open>Concrete inputs\<close>

text \<open>
  Modelled from the spec: \<^verbatim>\<open>getBorrowRate\<close> (in \<^verbatim>\<open>./utils\<close>, not among the sources).
  Section 4.2: the rate of the first point at or before it and of the last point at or
  after it, a linear interpolation between the two bracketing points otherwise, the left
  rate when the two points have the same utilization, and an error on an empty curve.
  The model's functions take the evaluator as a parameter; this one is the instance the
  concrete evaluations below use.
\<close>

fun getBorrowRate_spec :: "rat \<Rightarrow> (rat \<times> rat) list \<Rightarrow> error + rat" where
  "getBorrowRate_spec u [] = Inl BorrowRateError"
| "getBorrowRate_spec u [(u0, r0)] = Inr r0"
| "getBorrowRate_spec u ((u0, r0) # (u1, r1) # rest) =
     (if u \<le> u0 then Inr r0
      else if u \<le> u1 then
        (if u1 = u0 then Inr r0 else Inr (r0 + (r1 - r0) * (u - u0) / (u1 - u0)))
      else getBorrowRate_spec u ((u1, r1) # rest))"

text \<open>
  An instance of the parameters: two slots per second, and with them the slots of a day
  and of a year of 365 days.
\<close>

definition utils0 :: utils where
  "utils0 = \<lparr> SLOTS_PER_SECOND = 2, SLOTS_PER_YEAR = 63072000, SLOTS_PER_DAY = 172800,
              getBorrowRate = getBorrowRate_spec \<rparr>"

definition pt :: "nat \<Rightarrow> nat \<Rightarrow> CurvePointFields" where
  "pt u b = \<lparr> utilizationRateBps = u, borrowRateBps = b \<rparr>"

definition caps0 :: WithdrawalCaps where
  "caps0 = \<lparr> configCapacity = 0, currentTotal = 0 \<rparr>"

text \<open>
  A reserve of a token with no decimals at price 1: 1000 available, 1000 borrowed, no
  fees accumulated, a flat curve at 5%, a protocol take rate of 15%, a fixed host rate
  of 1%, a loan-to-value of 50%, a daily deposit-withdrawal cap of 1000000 with nothing
  used, no debt-withdrawal cap, last refreshed at slot 100, with slots of 500 ms.
\<close>

definition reserve0 :: KaminoReserve where
  "reserve0 =
     \<lparr> state =
         \<lparr> liquidity =
             \<lparr> mintPubkey = 11, mintDecimals = 0, availableAmount = 1000,
               ReserveLiquidity.borrowedAmountSf = 1000 * 2 ^ 60,
               accumulatedProtocolFeesSf = 0,
               accumulatedReferrerFeesSf = 0, pendingReferrerFeesSf = 0,
               ReserveLiquidity.cumulativeBorrowRateBsf = [2 ^ 60, 0, 0, 0] \<rparr>,
           config =
             \<lparr> protocolTakeRatePct = 15, hostFixedInterestRateBps = 100,
               points = [pt 0 500, pt 10000 500], elevationGroups = [0, 0],
               ReserveConfig.borrowLimit = 5000, borrowFactorPct = 100,
               ReserveConfig.loanToValuePct = 50,
               ReserveConfig.liquidationThresholdPct = 80, borrowFeeSf = 0,
               depositWithdrawalCap = \<lparr> configCapacity = 1000000, currentTotal = 0 \<rparr>,
               debtWithdrawalCap = caps0,
               disableUsageAsCollOutsideEmode = 0 \<rparr>,
           lastUpdate_slot = 100 \<rparr>,
       address = 1, tokenOraclePrice_price = 1, recentSlotDurationMs = 500 \<rparr>"

text \<open>
  The reserve above at another address and with other elevation groups, and a borrow
  entry whose cumulative borrow rate has the limbs of the reserve's.
\<close>

definition reserveWithGroups :: "PublicKey \<Rightarrow> nat list \<Rightarrow> KaminoReserve" where
  "reserveWithGroups a gs =
     reserve0 \<lparr> state := (state reserve0)
                  \<lparr> config := (config (state reserve0)) \<lparr> elevationGroups := gs \<rparr> \<rparr>,
                address := a \<rparr>"

definition borrow0 :: ObligationLiquidity where
  "borrow0 = \<lparr> borrowReserve = 1, cumulativeBorrowRateBsf = [2 ^ 60, 0, 0, 0],
               borrowedAmountSf = 500 * 2 ^ 60 \<rparr>"

text \<open>
  An obligation outside every elevation group with a deposit of 100 and a borrow of 50
  in that reserve, and a second one with a deposit of 20 and a borrow of 9 against a
  borrow limit of 10; a market that knows the reserve by its mint 11.
\<close>

definition stats1 :: ObligationStats where
  "stats1 =
     \<lparr> userTotalDeposit = 100, userTotalBorrow = 50,
       userTotalBorrowBorrowFactorAdjusted = 50, borrowLimit = 50,
       borrowLiquidationLimit = 80, borrowUtilization = 1, netAccountValue = 50,
       loanToValue = 1 / 2, liquidationLtv = 4 / 5, leverage = 2,
       potentialElevationGroupUpdate = [] \<rparr>"

definition position :: "Decimal \<Rightarrow> Position" where
  "position a = \<lparr> reserveAddress = 1, mintAddress = 11, amount = a,
                  marketValueRefreshed = a \<rparr>"

definition obligation1 :: KaminoObligation where
  "obligation1 =
     \<lparr> elevationGroup = 0, deposits = [(1, position 100)], borrows = [(1, position 50)],
       refreshedStats = stats1 \<rparr>"

definition stats2 :: ObligationStats where
  "stats2 =
     \<lparr> userTotalDeposit = 20, userTotalBorrow = 9,
       userTotalBorrowBorrowFactorAdjusted = 9, borrowLimit = 10,
       borrowLiquidationLimit = 16, borrowUtilization = 9 / 10, netAccountValue = 11,
       loanToValue = 9 / 20, liquidationLtv = 4 / 5, leverage = 20 / 11,
       potentialElevationGroupUpdate = [] \<rparr>"

definition obligation2 :: KaminoObligation where
  "obligation2 =
     \<lparr> elevationGroup = 0, deposits = [(1, position 20)], borrows = [(1, position 9)],
       refreshedStats = stats2 \<rparr>"

definition market0 :: KaminoMarket where
  "market0 =
     \<lparr> getReserveByMint = (\<lambda>mint. if mint = 11 then Some reserve0 else None),
       getElevationGroup = (\<lambda>id. \<lparr> ltvPct = 90, liquidationThresholdPct = 95 \<rparr>) \<rparr>"

definition marketWith :: "KaminoReserve \<Rightarrow> KaminoMarket" where
  "marketWith r =
     market0 \<lparr> getReserveByMint := (\<lambda>mint. if mint = 11 then Some r else None) \<rparr>"

text \<open>The reserve with another borrow factor, and the obligation with another debt.\<close>

definition reserveWithFactor :: "nat \<Rightarrow> KaminoReserve" where
  "reserveWithFactor F =
     reserve0 \<lparr> state := (state reserve0)
                  \<lparr> config := (config (state reserve0)) \<lparr> borrowFactorPct := F \<rparr> \<rparr> \<rparr>"

definition obligationWithDebt :: "Decimal \<Rightarrow> KaminoObligation" where
  "obligationWithDebt d =
     obligation2 \<lparr> refreshedStats := stats2 \<lparr> userTotalBorrowBorrowFactorAdjusted := d \<rparr> \<rparr>"

section \<open>Properties of the reserve model\<close>

subsection \<open>Compounded-interest approximation\<close>

lemma approximateCompoundedInterest_small:
  "approximateCompoundedInterest U rate 0 = 1"
  "approximateCompoundedInterest U rate 1 = 1 + rate / SLOTS_PER_YEAR U"
  "approximateCompoundedInterest U rate 2 =
     (1 + rate / SLOTS_PER_YEAR U) * (1 + rate / SLOTS_PER_YEAR U)"
  "approximateCompoundedInterest U rate 3 =
     (1 + rate / SLOTS_PER_YEAR U) * (1 + rate / SLOTS_PER_YEAR U)
       * (1 + rate / SLOTS_PER_YEAR U)"
  "approximateCompoundedInterest U rate 4 =
     ((1 + rate / SLOTS_PER_YEAR U) * (1 + rate / SLOTS_PER_YEAR U))
       * ((1 + rate / SLOTS_PER_YEAR U) * (1 + rate / SLOTS_PER_YEAR U))"
  by (simp_all add: approximateCompoundedInterest_def Let_def add.commute)

lemma third_order_terms:
  fixes b n :: rat
  shows "1 + b * n + b * b * n * (n - 1) / 2 + b * b * b * n * (n - 1) * (n - 2) / 6
       = 1 + n * b + n * (n - 1) / 2 * b ^ 2 + n * (n - 1) * (n - 2) / 6 * b ^ 3"
  by (simp add: power2_eq_square power3_eq_cube mult_ac)

text \<open>
  Claim C1. With \<open>base = rate / SLOTS_PER_YEAR\<close>, \<^verbatim>\<open>approximateCompoundedInterest\<close>
  returns 1 for 0 elapsed slots, \<open>1 + base\<close> for 1, the product of two such factors for
  2, of three for 3, the square of the product of two for 4, and for 5 slots and more
  the third-order expansion \<open>1 + n base + n (n - 1) / 2 base\<^sup>2 + n (n - 1) (n - 2) / 6 base\<^sup>3\<close>;
  for 0 to 4 slots the value returned is the power \<open>(1 + base)\<^sup>n\<close>.
\<close>

theorem approximateCompoundedInterest_cases:
  fixes U rate n
  defines "base \<equiv> rate / SLOTS_PER_YEAR U"
  shows "approximateCompoundedInterest U rate 0 = 1
   \<and> approximateCompoundedInterest U rate 1 = 1 + base
   \<and> approximateCompoundedInterest U rate 2 = (1 + base) * (1 + base)
   \<and> approximateCompoundedInterest U rate 3 = (1 + base) * (1 + base) * (1 + base)
   \<and> approximateCompoundedInterest U rate 4
         = ((1 + base) * (1 + base)) * ((1 + base) * (1 + base))
   \<and> (5 \<le> n \<longrightarrow> approximateCompoundedInterest U rate n =
         1 + of_int n * base + of_int n * (of_int n - 1) / 2 * base ^ 2
           + of_int n * (of_int n - 1) * (of_int n - 2) / 6 * base ^ 3)
   \<and> (n \<in> {0, 1, 2, 3, 4} \<longrightarrow>
         approximateCompoundedInterest U rate n = (1 + base) ^ nat n)"
proof -
  have big: "approximateCompoundedInterest U rate n =
         1 + of_int n * base + of_int n * (of_int n - 1) / 2 * base ^ 2
           + of_int n * (of_int n - 1) * (of_int n - 2) / 6 * base ^ 3" if "5 \<le> n"
    unfolding base_def [symmetric] approximateCompoundedInterest_def Let_def
    using that third_order_terms [of base "of_int n"] by simp
  have small: "approximateCompoundedInterest U rate n = (1 + base) ^ nat n"
    if "n \<in> {0, 1, 2, 3, 4}"
    using that
    by (auto simp: approximateCompoundedInterest_small base_def power2_eq_square
        power3_eq_cube power4_eq_xxxx)
  show ?thesis
    using big small by (simp add: approximateCompoundedInterest_small base_def)
qed

theorem approximateCompoundedInterest_cases_witness:
  "(5::int) \<le> 7 \<and> approximateCompoundedInterest utils0 63072000 7 = 64
   \<and> (4::int) \<in> {0, 1, 2, 3, 4} \<and> approximateCompoundedInterest utils0 63072000 4 = 16"
  using approximateCompoundedInterest_cases [of utils0 63072000 7]
    approximateCompoundedInterest_cases [of utils0 63072000 4]
  by (simp add: utils0_def)

subsection \<open>Fees and supply after compounding\<close>




text \<open>
  Claim C6. When the requested slot is not after the reserve's last update (zero slots
  have elapsed), \<^verbatim>\<open>getEstimatedTotalSupply\<close> returns the value of \<^verbatim>\<open>getTotalSupply\<close>, for
  every referral fee.
\<close>

theorem zero_slots_total_supply:
  "slot \<le> int (lastUpdate_slot (state r)) \<Longrightarrow>
     getEstimatedTotalSupply U r slot referralFeeBps = Inr (getTotalSupply r)"
  by (simp add: getEstimatedTotalSupply_def getEstimatedDebtAndSupply_def
      slotsElapsedSince_def)

theorem zero_slots_total_supply_witness:
  "(100::int) \<le> int (lastUpdate_slot (state reserve0))
   \<and> getEstimatedTotalSupply utils0 reserve0 100 2000 = Inr 2000
   \<and> getTotalSupply reserve0 = 2000"
proof -
  have le: "(100::int) \<le> int (lastUpdate_slot (state reserve0))"
    by (simp add: reserve0_def)
  have total: "getTotalSupply reserve0 = 2000"
    by (simp add: getTotalSupply_def reserve0_def getBorrowedAmount_def
        Fraction_toDecimal_def getLiquidityAvailableAmount_def getAccumulatedProtocolFees_def
        getAccumulatedReferrerFees_def getPendingReferrerFees_def)
  show ?thesis
    using zero_slots_total_supply [OF le, of utils0 2000] le total by simp
qed

subsection \<open>Truncation of the rate curve\<close>

lemma truncateBorrowCurve_takeWhile:
  "truncateBorrowCurve ps =
     map (\<lambda>p. (of_nat (utilizationRateBps p) / 10000, of_nat (borrowRateBps p) / 10000))
       (takeWhile (\<lambda>p. utilizationRateBps p \<noteq> 10000) ps
        @ take 1 (dropWhile (\<lambda>p. utilizationRateBps p \<noteq> 10000) ps))"
  by (induction ps) (auto simp: ONE_HUNDRED_PCT_IN_BPS_def)

lemma first_hit_prefix:
  assumes "i < length ps" "\<not> P (ps ! i)" "\<forall>j<i. P (ps ! j)"
  shows "takeWhile P ps @ take 1 (dropWhile P ps) = take (Suc i) ps"
proof -
  have tw: "takeWhile P ps = take i ps"
    using assms by (intro takeWhile_eq_take_P_nth) auto
  have "length (takeWhile P ps) = i" using tw assms by simp
  then have dw: "dropWhile P ps = drop i ps"
    by (simp add: dropWhile_eq_drop)
  have "take 1 (drop i ps) = [ps ! i]"
    using assms(1) by (simp add: take_Suc_conv_app_nth Cons_nth_drop_Suc [symmetric])
  then show ?thesis using tw dw assms(1) by (simp add: take_Suc_conv_app_nth)
qed

text \<open>
  Claim C9. \<^verbatim>\<open>truncateBorrowCurve\<close> returns the points up to and including the first
  one whose utilization is 10000 basis points (every point before it is kept, every
  point after it is dropped), and all the points when none has that utilization, each
  kept point converted to \<open>(utilizationRateBps / 10000, borrowRateBps / 10000)\<close>.
\<close>

theorem truncateBorrowCurve_prefix:
  "(\<forall>i. i < length ps \<and> utilizationRateBps (ps ! i) = 10000
          \<and> (\<forall>j<i. utilizationRateBps (ps ! j) \<noteq> 10000)
        \<longrightarrow> truncateBorrowCurve ps =
              map (\<lambda>p. (of_nat (utilizationRateBps p) / 10000,
                        of_nat (borrowRateBps p) / 10000))
                (take (Suc i) ps))
   \<and> ((\<forall>p \<in> set ps. utilizationRateBps p \<noteq> 10000)
        \<longrightarrow> truncateBorrowCurve ps =
              map (\<lambda>p. (of_nat (utilizationRateBps p) / 10000,
                        of_nat (borrowRateBps p) / 10000)) ps)"
proof (intro conjI allI impI)
  fix i
  assume h: "i < length ps \<and> utilizationRateBps (ps ! i) = 10000
          \<and> (\<forall>j<i. utilizationRateBps (ps ! j) \<noteq> 10000)"
  then have "takeWhile (\<lambda>p. utilizationRateBps p \<noteq> 10000) ps
        @ take 1 (dropWhile (\<lambda>p. utilizationRateBps p \<noteq> 10000) ps) = take (Suc i) ps"
    by (intro first_hit_prefix) auto
  then show "truncateBorrowCurve ps =
              map (\<lambda>p. (of_nat (utilizationRateBps p) / 10000,
                        of_nat (borrowRateBps p) / 10000))
                (take (Suc i) ps)"
    by (simp only: truncateBorrowCurve_takeWhile)
next
  assume "\<forall>p \<in> set ps. utilizationRateBps p \<noteq> 10000"
  then have tw: "takeWhile (\<lambda>p. utilizationRateBps p \<noteq> 10000) ps = ps"
    and dw: "dropWhile (\<lambda>p. utilizationRateBps p \<noteq> 10000) ps = []"
    by auto
  show "truncateBorrowCurve ps =
              map (\<lambda>p. (of_nat (utilizationRateBps p) / 10000,
                        of_nat (borrowRateBps p) / 10000)) ps"
    by (simp only: truncateBorrowCurve_takeWhile tw dw take.simps append_Nil2)
qed

theorem truncateBorrowCurve_prefix_witness:
  "truncateBorrowCurve [pt 0 1, pt 8000 300, pt 10000 7500, pt 10000 9000, pt 5 5]
     = [(0, 1 / 10000), (4 / 5, 3 / 100), (1, 3 / 4)]
   \<and> truncateBorrowCurve [pt 0 1, pt 8000 300] = [(0, 1 / 10000), (4 / 5, 3 / 100)]"
  using truncateBorrowCurve_prefix
          [of "[pt 0 1, pt 8000 300, pt 10000 7500, pt 10000 9000, pt 5 5]",
           THEN conjunct1, rule_format, of 2]
        truncateBorrowCurve_prefix [of "[pt 0 1, pt 8000 300]", THEN conjunct2]
  by (simp add: pt_def ONE_HUNDRED_PCT_IN_BPS_def numeral_2_eq_2 less_Suc_eq)

section \<open>Properties of the obligation model\<close>

subsection \<open>Elevation groups common to a list of reserves\<close>

lemma countElevationGroup_count:
  "storedCount (countElevationGroup m g) h
     = storedCount m h + (if g \<noteq> 0 \<and> h = g then 1 else 0)"
  by (auto simp: storedCount_def countElevationGroup_def update_conv' split: option.splits)

lemma countElevationGroup_keys:
  "fst ` set (countElevationGroup m g) = fst ` set m \<union> (if g \<noteq> 0 then {g} else {})"
  by (auto simp: countElevationGroup_def dom_update split: option.splits)

lemma countElevationGroup_distinct:
  "distinct (map fst m) \<Longrightarrow> distinct (map fst (countElevationGroup m g))"
  by (auto simp: countElevationGroup_def distinct_update split: option.splits)

lemma count_groups_count:
  "storedCount (fold (\<lambda>g m. countElevationGroup m g) gs m) h
     = storedCount m h + (if h \<noteq> 0 then count_list gs h else 0)"
  by (induction gs arbitrary: m) (auto simp: countElevationGroup_count)

lemma count_groups_keys:
  "fst ` set (fold (\<lambda>g m. countElevationGroup m g) gs m) = fst ` set m \<union> (set gs - {0})"
  by (induction gs arbitrary: m) (auto simp: countElevationGroup_keys)

lemma count_groups_distinct:
  "distinct (map fst m) \<Longrightarrow>
     distinct (map fst (fold (\<lambda>g m. countElevationGroup m g) gs m))"
  by (induction gs arbitrary: m) (auto simp: countElevationGroup_distinct)

lemma count_reserves:
  fixes rs m
  defines "res \<equiv> fold (\<lambda>reserve counts.
             fold (\<lambda>g m. countElevationGroup m g) (elevationGroups (config (state reserve)))
               counts) rs m"
  shows "storedCount res h
           = storedCount m h
             + (if h \<noteq> 0
                then sum_list (map (\<lambda>r. count_list (elevationGroups (config (state r))) h) rs)
                else 0)"
    and "fst ` set res
           = fst ` set m \<union> ((\<Union>r \<in> set rs. set (elevationGroups (config (state r)))) - {0})"
    and "distinct (map fst m) \<Longrightarrow> distinct (map fst res)"
  unfolding res_def
  by (induction rs arbitrary: m)
    (auto simp: count_groups_count count_groups_keys count_groups_distinct)

text \<open>
  What the function computes on every input: a group is returned when it is not 0, some
  reserve lists it, and its occurrences over all the reserves' lists add up to the
  number of reserves.
\<close>

lemma getElevationGroupsForReserves_occurrences:
  "g \<in> set (getElevationGroupsForReserves rs) \<longleftrightarrow>
     g \<noteq> 0 \<and> (\<exists>r \<in> set rs. g \<in> set (elevationGroups (config (state r))))
     \<and> sum_list (map (\<lambda>r. count_list (elevationGroups (config (state r))) g) rs)
         = length rs"
proof -
  let ?m = "countElevationGroups rs"
  have d: "distinct (map fst ?m)"
    unfolding countElevationGroups_def by (rule count_reserves(3)) simp
  have c: "storedCount ?m g
      = (if g \<noteq> 0
         then sum_list (map (\<lambda>r. count_list (elevationGroups (config (state r))) g) rs)
         else 0)"
  proof -
    have "storedCount [] g = 0" by (simp add: storedCount_def)
    then show ?thesis
      unfolding countElevationGroups_def by (simp add: count_reserves(1))
  qed
  have k: "g \<in> fst ` set ?m \<longleftrightarrow>
      g \<noteq> 0 \<and> (\<exists>r \<in> set rs. g \<in> set (elevationGroups (config (state r))))"
    unfolding countElevationGroups_def by (auto simp: count_reserves(2))
  have "g \<in> set (getElevationGroupsForReserves rs) \<longleftrightarrow> (g, length rs) \<in> set ?m"
    by (force simp: getElevationGroupsForReserves_def)
  also have "\<dots> \<longleftrightarrow> map_of ?m g = Some (length rs)"
    using d by simp
  also have "\<dots> \<longleftrightarrow> g \<in> fst ` set ?m \<and> storedCount ?m g = length rs"
    by (auto simp: storedCount_def dom_map_of_conv_image_fst [symmetric]
        split: option.splits)
  finally show ?thesis using c k by auto
qed

lemma getElevationGroupsForReserves_distinct:
  "distinct (getElevationGroupsForReserves rs)"
proof -
  have "distinct (map fst (countElevationGroups rs))"
    unfolding countElevationGroups_def by (rule count_reserves(3)) simp
  then show ?thesis
    unfolding getElevationGroupsForReserves_def by (rule distinct_map_filter)
qed

lemma count_list_once:
  "distinct (filter (\<lambda>x. x \<noteq> 0) gs) \<Longrightarrow> g \<noteq> (0::nat) \<Longrightarrow>
     count_list gs g = (if g \<in> set gs then 1 else 0)"
  by (induction gs) (auto split: if_splits)

lemma sum_indicator_eq_length:
  "sum_list (map (\<lambda>r. if P r then 1 else (0::nat)) rs) = length rs
     \<longleftrightarrow> (\<forall>r \<in> set rs. P r)"
proof -
  have le: "sum_list (map (\<lambda>r. if P r then 1 else (0::nat)) rs) \<le> length rs" for rs
    by (induction rs) auto
  show ?thesis
  proof (induction rs)
    case Nil
    then show ?case by simp
  next
    case (Cons a rs)
    then show ?case using le [of rs] by auto
  qed
qed

lemma length_filter_eq_length:
  "length (filter P xs) = length xs \<longleftrightarrow> (\<forall>x \<in> set xs. P x)"
  by (metis filter_id_conv length_filter_less less_irrefl)

text \<open>
  Claim C7, as amended. For a non-empty list of reserves none of which lists a non-zero
  group twice, \<^verbatim>\<open>getElevationGroupsForReserves\<close> returns exactly the non-zero groups
  that every reserve of the list has among its \<^verbatim>\<open>elevationGroups\<close>: a group is in the
  result if and only if it is not 0 and the number of reserves listing it is the number
  of reserves; and no group is returned twice.
\<close>

theorem getElevationGroupsForReserves_common:
  assumes "rs \<noteq> []"
    and "\<forall>r \<in> set rs. distinct (filter (\<lambda>x. x \<noteq> 0) (elevationGroups (config (state r))))"
  shows "set (getElevationGroupsForReserves rs) =
           {g. g \<noteq> 0 \<and> (\<forall>r \<in> set rs. g \<in> set (elevationGroups (config (state r))))}
     \<and> (\<forall>g. g \<in> set (getElevationGroupsForReserves rs) \<longleftrightarrow>
           g \<noteq> 0
           \<and> length (filter (\<lambda>r. g \<in> set (elevationGroups (config (state r)))) rs)
               = length rs)
     \<and> distinct (getElevationGroupsForReserves rs)"
proof -
  have key: "g \<in> set (getElevationGroupsForReserves rs) \<longleftrightarrow>
           g \<noteq> 0 \<and> (\<forall>r \<in> set rs. g \<in> set (elevationGroups (config (state r))))" for g
  proof (cases "g = 0")
    case True
    then show ?thesis by (simp add: getElevationGroupsForReserves_occurrences)
  next
    case False
    have "sum_list (map (\<lambda>r. count_list (elevationGroups (config (state r))) g) rs)
        = sum_list
            (map (\<lambda>r. if g \<in> set (elevationGroups (config (state r))) then 1 else 0) rs)"
      using assms(2) False
      by (intro arg_cong [where f = sum_list] map_cong) (auto simp: count_list_once)
    then have total:
      "sum_list (map (\<lambda>r. count_list (elevationGroups (config (state r))) g) rs) = length rs
         \<longleftrightarrow> (\<forall>r \<in> set rs. g \<in> set (elevationGroups (config (state r))))"
      by (simp only: sum_indicator_eq_length)
    obtain r0 where "r0 \<in> set rs"
      using assms(1) by (cases rs) auto
    then show ?thesis
      using False total by (auto simp: getElevationGroupsForReserves_occurrences)
  qed
  have "set (getElevationGroupsForReserves rs) =
           {g. g \<noteq> 0 \<and> (\<forall>r \<in> set rs. g \<in> set (elevationGroups (config (state r))))}"
    using key by auto
  moreover have "\<forall>g. g \<in> set (getElevationGroupsForReserves rs) \<longleftrightarrow>
           g \<noteq> 0
           \<and> length (filter (\<lambda>r. g \<in> set (elevationGroups (config (state r)))) rs)
               = length rs"
    using key by (simp add: length_filter_eq_length)
  ultimately show ?thesis
    using getElevationGroupsForReserves_distinct by blast
qed

theorem getElevationGroupsForReserves_common_witness:
  "7 \<notin> set (getElevationGroupsForReserves
                [reserveWithGroups 1 [7, 0, 3], reserveWithGroups 2 [3, 0]])
   \<and> 3 \<in> set (getElevationGroupsForReserves
                [reserveWithGroups 1 [7, 0, 3], reserveWithGroups 2 [3, 0]])
   \<and> 7 \<in> set (getElevationGroupsForReserves [reserveWithGroups 1 [7, 0, 3]])"
  using getElevationGroupsForReserves_common
          [of "[reserveWithGroups 1 [7, 0, 3], reserveWithGroups 2 [3, 0]]"]
        getElevationGroupsForReserves_common [of "[reserveWithGroups 1 [7, 0, 3]]"]
  by (simp add: reserveWithGroups_def)

text \<open>
  The claim as stated fails on the empty list, where every group is vacuously listed by
  every reserve and the result is empty, and on a reserve that lists a group twice: the
  occurrences are counted, so group 7 listed twice by the first of two reserves is
  returned although the second does not list it.
\<close>

theorem getElevationGroupsForReserves_counterexample:
  "getElevationGroupsForReserves [] = []
   \<and> getElevationGroupsForReserves [reserveWithGroups 1 [7, 7], reserveWithGroups 2 [0, 0]]
       = [7]
   \<and> 7 \<notin> set (elevationGroups (config (state (reserveWithGroups 2 [0, 0]))))"
  by (simp add: getElevationGroupsForReserves_def countElevationGroups_def
      countElevationGroup_def reserveWithGroups_def)

subsection \<open>The two reductions of the cumulative borrow rate\<close>

text \<open>
  What each reduction computes on every limb array: the reserve side returns 0 whenever
  every limb is below \<open>2^64\<close> (as the limbs of a decoded account are) and leaves the
  stored array alone; the obligation side returns the plain sum of the limbs over
  \<open>2^60\<close> and leaves the stored array reversed.
\<close>

lemma shift_after_add_zero:
  "\<forall>l \<in> set ls. l < 2 ^ 64 \<Longrightarrow>
     foldl (\<lambda>prev curr. (prev + curr) div 2 ^ 64) (0::nat) ls = 0"
  by (induction ls rule: rev_induct) simp_all

lemma KaminoReserve_getCumulativeBorrowRate_limbs:
  assumes "\<forall>l \<in> set (ReserveLiquidity.cumulativeBorrowRateBsf (liquidity (state r))).
             l < 2 ^ 64"
  shows "KaminoReserve_getCumulativeBorrowRate r = (0, r)"
proof -
  have "foldl (\<lambda>prev curr. (prev + curr) div 2 ^ 64) (0::nat)
          (rev (ReserveLiquidity.cumulativeBorrowRateBsf (liquidity (state r)))) = 0"
    using assms by (intro shift_after_add_zero) simp
  then show ?thesis
    by (simp only: KaminoReserve_getCumulativeBorrowRate_def Let_def Fraction_toDecimal_def)
      simp
qed

lemma foldl_add_sum_list: "foldl (\<lambda>acc v. acc + v) (a::nat) ls = a + sum_list ls"
  by (induction ls arbitrary: a) simp_all

lemma KaminoObligation_getCumulativeBorrowRate_sum:
  "KaminoObligation_getCumulativeBorrowRate b
     = (of_nat (sum_list (cumulativeBorrowRateBsf b)) / 2 ^ 60,
        b \<lparr> cumulativeBorrowRateBsf := rev (cumulativeBorrowRateBsf b) \<rparr>)"
  by (simp add: KaminoObligation_getCumulativeBorrowRate_def foldl_add_sum_list
      Fraction_toDecimal_def)

text \<open>
  Claim C10 at the limbs \<open>[2^60, 0, 0, 0]\<close> (the scaled fraction of 1), stored in a
  reserve and in a borrow entry. The reserve-side reduction shifts after every addition
  and returns 0, leaving the stored array as it was; the obligation-side reduction never
  shifts and returns 1, and leaves the stored array reversed.
\<close>

theorem getCumulativeBorrowRate_diverge:
  "ReserveLiquidity.cumulativeBorrowRateBsf (liquidity (state reserve0))
     = cumulativeBorrowRateBsf borrow0
   \<and> KaminoReserve_getCumulativeBorrowRate reserve0 = (0, reserve0)
   \<and> KaminoObligation_getCumulativeBorrowRate borrow0
       = (1, borrow0 \<lparr> cumulativeBorrowRateBsf := [0, 0, 0, 2 ^ 60] \<rparr>)
   \<and> borrow0 \<lparr> cumulativeBorrowRateBsf := [0, 0, 0, 2 ^ 60] \<rparr> \<noteq> borrow0"
  by (simp add: KaminoReserve_getCumulativeBorrowRate_def
      KaminoObligation_getCumulativeBorrowRate_def reserve0_def borrow0_def
      Fraction_toDecimal_def)

subsection \<open>Errors of the simulation\<close>

lemma fold_match_None:
  "fold (\<lambda>x found. if P x then Some x else found) xs acc = None
     \<longleftrightarrow> acc = None \<and> (\<forall>x \<in> set xs. \<not> P x)"
  by (induction xs arbitrary: acc) auto

lemma lastMatching_None: "lastMatching P xs = None \<longleftrightarrow> (\<forall>x \<in> set xs. \<not> P x)"
  by (simp add: lastMatching_def fold_match_None)

lemma noReserveFor_iff:
  "noReserveFor mint rs \<longleftrightarrow>
     lastMatching (\<lambda>r. getLiquidityMint r = mint) (map snd rs) = None"
  by (simp add: noReserveFor_def lastMatching_None)

lemma calculateSimulatedBorrow_outcome:
  "(fst (calculateSimulatedBorrow ob st ps a mint rs) = Inl NoReserveForMint
      \<longleftrightarrow> noReserveFor mint rs)
   \<and> (fst (calculateSimulatedBorrow ob st ps a mint rs) = Inl ElevationGroupDowngrade
      \<longleftrightarrow> groupMismatch ob mint rs)
   \<and> (isl (fst (calculateSimulatedBorrow ob st ps a mint rs))
      \<longleftrightarrow> noReserveFor mint rs \<or> groupMismatch ob mint rs)
   \<and> snd (calculateSimulatedBorrow ob st ps a mint rs) = ob"
proof (cases "lastMatching (\<lambda>r. getLiquidityMint r = mint) (map snd rs)")
  case None
  then show ?thesis
    by (simp add: calculateSimulatedBorrow_def noReserveFor_iff groupMismatch_def)
next
  case (Some r)
  then show ?thesis
    by (simp add: calculateSimulatedBorrow_def Let_def noReserveFor_iff groupMismatch_def)
qed

lemma calculateSimulatedDeposit_outcome:
  "(fst (calculateSimulatedDeposit ob st ps a mint rs market) = Inl NoReserveForMint
      \<longleftrightarrow> noReserveFor mint rs)
   \<and> (fst (calculateSimulatedDeposit ob st ps a mint rs market) = Inl ElevationGroupDowngrade
      \<longleftrightarrow> groupMismatch ob mint rs)
   \<and> (isl (fst (calculateSimulatedDeposit ob st ps a mint rs market))
      \<longleftrightarrow> noReserveFor mint rs \<or> groupMismatch ob mint rs)
   \<and> snd (calculateSimulatedDeposit ob st ps a mint rs market) = ob"
proof (cases "lastMatching (\<lambda>r. getLiquidityMint r = mint) (map snd rs)")
  case None
  then show ?thesis
    by (simp add: calculateSimulatedDeposit_def noReserveFor_iff groupMismatch_def)
next
  case (Some r)
  then show ?thesis
    by (simp add: calculateSimulatedDeposit_def Let_def noReserveFor_iff groupMismatch_def)
qed

lemma calculateSimulatedBorrow_InlD:
  "calculateSimulatedBorrow ob st ps a mint rs = (Inl e, t) \<Longrightarrow>
     (noReserveFor mint rs \<or> groupMismatch ob mint rs) \<and> t = ob"
  using calculateSimulatedBorrow_outcome [of ob st ps a mint rs] by auto

lemma calculateSimulatedBorrow_InrD:
  "calculateSimulatedBorrow ob st ps a mint rs = (Inr v, t) \<Longrightarrow>
     \<not> noReserveFor mint rs \<and> \<not> groupMismatch ob mint rs \<and> t = ob"
  using calculateSimulatedBorrow_outcome [of ob st ps a mint rs] by auto

lemma calculateSimulatedDeposit_InlD:
  "calculateSimulatedDeposit ob st ps a mint rs market = (Inl e, t) \<Longrightarrow>
     (noReserveFor mint rs \<or> groupMismatch ob mint rs) \<and> t = ob"
  using calculateSimulatedDeposit_outcome [of ob st ps a mint rs market] by auto

lemma calculateSimulatedDeposit_InrD:
  "calculateSimulatedDeposit ob st ps a mint rs market = (Inr v, t) \<Longrightarrow>
     \<not> noReserveFor mint rs \<and> \<not> groupMismatch ob mint rs \<and> t = ob"
  using calculateSimulatedDeposit_outcome [of ob st ps a mint rs market] by auto

lemma simulatedLegs_outcome:
  "(isl (fst (simulatedLegs ob a action mint market rs))
      \<longleftrightarrow> action \<in> {Mint, Redeem} \<or> noReserveFor mint rs \<or> groupMismatch ob mint rs)
   \<and> (action \<in> {Mint, Redeem} \<longrightarrow>
        fst (simulatedLegs ob a action mint market rs) = Inl InvalidActionType)
   \<and> snd (simulatedLegs ob a action mint market rs) = ob"
  by (cases action)
    (auto simp: simulatedLegs_def Let_def split: prod.splits sum.splits
      dest!: calculateSimulatedBorrow_InlD calculateSimulatedBorrow_InrD
        calculateSimulatedDeposit_InlD calculateSimulatedDeposit_InrD)

lemma getSimulatedObligationStats_outcome:
  "(isl (fst (getSimulatedObligationStats ob a action mint market rs))
      \<longleftrightarrow> action \<in> {Mint, Redeem} \<or> noReserveFor mint rs \<or> groupMismatch ob mint rs)
   \<and> (action \<in> {Mint, Redeem} \<longrightarrow>
        fst (getSimulatedObligationStats ob a action mint market rs) = Inl InvalidActionType)
   \<and> snd (getSimulatedObligationStats ob a action mint market rs) = ob"
  using simulatedLegs_outcome [of ob a action mint market rs]
  by (auto simp: getSimulatedObligationStats_def Let_def split: prod.splits sum.splits)

text \<open>
  Claim C8. \<^verbatim>\<open>calculateSimulatedBorrow\<close> and \<^verbatim>\<open>calculateSimulatedDeposit\<close> end with the
  error "no reserve found" exactly when no reserve of the supplied map has the requested
  liquidity mint, with the error "downgrade the elevation group" exactly when the target
  reserve's \<^verbatim>\<open>elevationGroups\<close> do not include the obligation's elevation group, and with
  no other error. \<^verbatim>\<open>getSimulatedObligationStats\<close> ends with the error "invalid action
  type" on every action outside deposit, withdraw, borrow, repay, depositAndBorrow and
  repayAndWithdraw, and with an error exactly when the action is such a one or one of
  the two conditions holds. Every call, failed or not, leaves the obligation as it was.
\<close>

theorem simulation_errors:
  "(fst (calculateSimulatedBorrow ob st ps a mint rs) = Inl NoReserveForMint
      \<longleftrightarrow> noReserveFor mint rs)
   \<and> (fst (calculateSimulatedBorrow ob st ps a mint rs) = Inl ElevationGroupDowngrade
      \<longleftrightarrow> groupMismatch ob mint rs)
   \<and> (isl (fst (calculateSimulatedBorrow ob st ps a mint rs))
      \<longleftrightarrow> noReserveFor mint rs \<or> groupMismatch ob mint rs)
   \<and> snd (calculateSimulatedBorrow ob st ps a mint rs) = ob
   \<and> (fst (calculateSimulatedDeposit ob st ps a mint rs market) = Inl NoReserveForMint
      \<longleftrightarrow> noReserveFor mint rs)
   \<and> (fst (calculateSimulatedDeposit ob st ps a mint rs market) = Inl ElevationGroupDowngrade
      \<longleftrightarrow> groupMismatch ob mint rs)
   \<and> (isl (fst (calculateSimulatedDeposit ob st ps a mint rs market))
      \<longleftrightarrow> noReserveFor mint rs \<or> groupMismatch ob mint rs)
   \<and> snd (calculateSimulatedDeposit ob st ps a mint rs market) = ob
   \<and> (action \<notin> {Deposit, Withdraw, Borrow, Repay, DepositAndBorrow, RepayAndWithdraw}
        \<longrightarrow> fst (getSimulatedObligationStats ob a action mint market rs)
              = Inl InvalidActionType)
   \<and> (isl (fst (getSimulatedObligationStats ob a action mint market rs))
      \<longleftrightarrow> action \<notin> {Deposit, Withdraw, Borrow, Repay, DepositAndBorrow, RepayAndWithdraw}
          \<or> noReserveFor mint rs \<or> groupMismatch ob mint rs)
   \<and> snd (getSimulatedObligationStats ob a action mint market rs) = ob"
proof -
  have tags: "action \<notin> {Deposit, Withdraw, Borrow, Repay, DepositAndBorrow, RepayAndWithdraw}
      \<longleftrightarrow> action \<in> {Mint, Redeem}"
    by (cases action) simp_all
  show ?thesis
    unfolding tags
    using calculateSimulatedBorrow_outcome [of ob st ps a mint rs]
      calculateSimulatedDeposit_outcome [of ob st ps a mint rs market]
      getSimulatedObligationStats_outcome [of ob a action mint market rs]
    by blast
qed

lemmas reserve_getters =
  getBorrowedAmount_def getLiquidityAvailableAmount_def getOracleMarketPrice_def
  getAccumulatedProtocolFees_def getAccumulatedReferrerFees_def getPendingReferrerFees_def
  getBorrowFee_def getFixedHostInterestRate_def getTotalSupply_def getMintFactor_def
  getLiquidityMint_def getBorrowFactor_def slotsElapsedSince_def
  getDepositWithdrawalCapCapacity_def getDepositWithdrawalCapCurrent_def
  getDebtWithdrawalCapCapacity_def getDebtWithdrawalCapCurrent_def Fraction_toDecimal_def
  stats_def formatReserveData_def

lemma reserve0_values:
  "getLiquidityMint reserve0 = 11" "getOracleMarketPrice reserve0 = 1"
  "getMintFactor reserve0 = 1" "address reserve0 = 1"
  "elevationGroups (config (state reserve0)) = [0, 0]"
  "borrowFactor (stats reserve0) = 100" "decimals (stats reserve0) = 0"
  "loanToValuePct (stats reserve0) = 1 / 2" "liquidationThreshold (stats reserve0) = 4 / 5"
  by (simp_all add: reserve_getters reserve0_def)

theorem simulation_errors_witness:
  "noReserveFor 99 [(1, reserve0)]
   \<and> calculateSimulatedBorrow obligation1 stats1 [] 5 99 [(1, reserve0)]
       = (Inl NoReserveForMint, obligation1)
   \<and> groupMismatch (obligation1 \<lparr> elevationGroup := 2 \<rparr>) 11 [(1, reserve0)]
   \<and> calculateSimulatedDeposit (obligation1 \<lparr> elevationGroup := 2 \<rparr>) stats1 [] 5 11
         [(1, reserve0)] market0
       = (Inl ElevationGroupDowngrade, obligation1 \<lparr> elevationGroup := 2 \<rparr>)
   \<and> getSimulatedObligationStats obligation1 5 Mint 11 market0 [(1, reserve0)]
       = (Inl InvalidActionType, obligation1)
   \<and> \<not> isl (fst (getSimulatedObligationStats obligation1 5 Deposit 11 market0
                      [(1, reserve0)]))"
proof -
  have no: "noReserveFor 99 [(1, reserve0)]"
    by (simp add: noReserveFor_def reserve0_values)
  have mis: "groupMismatch (obligation1 \<lparr> elevationGroup := 2 \<rparr>) 11 [(1, reserve0)]"
    by (simp add: groupMismatch_def lastMatching_def reserve0_values)
  have ok: "\<not> noReserveFor 11 [(1, reserve0)]" "\<not> groupMismatch obligation1 11 [(1, reserve0)]"
    by (simp_all add: noReserveFor_def groupMismatch_def lastMatching_def reserve0_values
        obligation1_def)
  show ?thesis
    using no mis ok
      simulation_errors [of obligation1 stats1 "[]" 5 99 "[(1, reserve0)]" market0 Mint]
      simulation_errors [of "obligation1 \<lparr> elevationGroup := 2 \<rparr>" stats1 "[]" 5 11
          "[(1, reserve0)]" market0 Mint]
      simulation_errors [of obligation1 stats1 "[]" 5 11 "[(1, reserve0)]" market0 Mint]
      simulation_errors [of obligation1 stats1 "[]" 5 11 "[(1, reserve0)]" market0 Deposit]
    by (auto simp: prod_eq_iff)
qed

subsection \<open>Simulated actions\<close>

text \<open>
  Withdraw is a deposit of the negated amount and repay a borrow of the negated amount;
  the values a leg computes are floored at zero and the others are carried over; net
  account value, loan-to-value and leverage are computed last from the new values.
\<close>

lemma withdraw_is_negated_deposit:
  "getSimulatedObligationStats ob a Withdraw mint market rs
     = getSimulatedObligationStats ob (- a) Deposit mint market rs"
  by (simp add: getSimulatedObligationStats_def simulatedLegs_def)

lemma repay_is_negated_borrow:
  "getSimulatedObligationStats ob a Repay mint market rs
     = getSimulatedObligationStats ob (- a) Borrow mint market rs"
  by (simp add: getSimulatedObligationStats_def simulatedLegs_def)

lemma calculateSimulatedDeposit_floored:
  assumes "calculateSimulatedDeposit ob st ps a mint rs market = (Inr (s, d), t)"
  shows "0 \<le> userTotalDeposit s \<and> 0 \<le> borrowLimit s \<and> 0 \<le> borrowLiquidationLimit s
     \<and> 0 \<le> liquidationLtv s
     \<and> userTotalBorrow s = userTotalBorrow st
     \<and> userTotalBorrowBorrowFactorAdjusted s = userTotalBorrowBorrowFactorAdjusted st"
  using assms
  by (auto simp: calculateSimulatedDeposit_def Let_def positiveOrZero_def valueOrZero_div_def
      split: option.splits if_splits)

lemma calculateSimulatedBorrow_floored:
  assumes "calculateSimulatedBorrow ob st ps a mint rs = (Inr (s, b), t)"
  shows "0 \<le> userTotalBorrow s \<and> 0 \<le> userTotalBorrowBorrowFactorAdjusted s
     \<and> userTotalDeposit s = userTotalDeposit st \<and> borrowLimit s = borrowLimit st
     \<and> borrowLiquidationLimit s = borrowLiquidationLimit st
     \<and> liquidationLtv s = liquidationLtv st"
  using assms
  by (auto simp: calculateSimulatedBorrow_def Let_def positiveOrZero_def
      split: option.splits if_splits)

lemma derived_values_recomputed_last:
  assumes "getSimulatedObligationStats ob a action mint market rs = (Inr (s, d, b), t)"
  shows "netAccountValue s = userTotalDeposit s - userTotalBorrow s
     \<and> loanToValue s = (if userTotalDeposit s = 0 then 0
                        else userTotalBorrowBorrowFactorAdjusted s / userTotalDeposit s)
     \<and> leverage s = (if netAccountValue s = 0 then 0
                      else userTotalDeposit s / netAccountValue s)"
  using assms
  by (auto simp: getSimulatedObligationStats_def Let_def valueOrZero_div_def
      split: prod.splits sum.splits)

text \<open>
  Claim C3 on the obligation with a deposit of 100 and a borrow of 50 in one reserve, for
  the action repayAndWithdraw with amount 10. The repay leg lowers the borrow to 40; the
  withdraw leg is called with the amount 10, not -10, and raises the deposit to 110 (and
  the borrow limit to 55), where the action withdraw with the same amount lowers the
  deposit to 90.
\<close>

theorem repayAndWithdraw_raises_deposit:
  "getSimulatedObligationStats obligation1 10 RepayAndWithdraw 11 market0 [(1, reserve0)]
     = (Inr (stats1 \<lparr> userTotalDeposit := 110, userTotalBorrow := 40,
                      userTotalBorrowBorrowFactorAdjusted := 40, borrowLimit := 55,
                      borrowLiquidationLimit := 88, netAccountValue := 70,
                      loanToValue := 4 / 11, leverage := 11 / 7 \<rparr>,
             [(1, position 110)], [(1, position 40)]), obligation1)
   \<and> getSimulatedObligationStats obligation1 10 Withdraw 11 market0 [(1, reserve0)]
     = (Inr (stats1 \<lparr> userTotalDeposit := 90, borrowLimit := 45,
                      borrowLiquidationLimit := 72, netAccountValue := 40,
                      loanToValue := 5 / 9, leverage := 9 / 4 \<rparr>,
             [(1, position 90)], [(1, position 50)]), obligation1)"
  by (simp add: getSimulatedObligationStats_def simulatedLegs_def calculateSimulatedBorrow_def
      calculateSimulatedDeposit_def lastMatching_def PubkeyHashMap_new_def reserve0_values
      Let_def obligation1_def stats1_def position_def positiveOrZero_def valueOrZero_div_def)

subsection \<open>Strings of Decimal values\<close>

declare natToString.simps [simp del]

lemma natToString_digit: "n < 10 \<Longrightarrow> natToString n = [digitChar n]"
  by (subst natToString.simps) simp

lemma natToString_more:
  "10 \<le> n \<Longrightarrow> natToString n = natToString (n div 10) @ [digitChar (n mod 10)]"
  by (subst natToString.simps) simp

lemma decimalScale_integer:
  "of_int \<lfloor>x\<rfloor> = x \<Longrightarrow> decimalScale fuel x s = (nat \<lfloor>x\<rfloor>, s)"
  by (cases fuel) simp_all

lemma Decimal_valueOf_9_10: "Decimal_valueOf 9 = ''9''" "Decimal_valueOf 10 = ''10''"
  by (simp_all add: Decimal_valueOf_def finiteToString_def decimalScale_integer
      natToString_digit natToString_more digitChar_def stripTrailingZeros_def)

lemma jsStringLess_irrefl: "\<not> jsStringLess s s"
  by (induction s) auto

lemma Decimal_greaterOrEqual_refl: "Decimal_greaterOrEqual x x"
  by (simp add: Decimal_greaterOrEqual_def jsStringLess_irrefl)

subsection \<open>Minimum and maximum of Decimal values\<close>

lemma Decimal_min_Nil: "Decimal_min x [] = x"
  by (simp add: Decimal_min_def)

lemma Decimal_min_NaN: "Decimal_min NaN ys = NaN"
  by (induction ys) (simp_all add: Decimal_min_def)

lemma Decimal_min_Cons:
  "Decimal_min (Finite a) (Finite b # ys) = Decimal_min (Finite (min a b)) ys"
  "Decimal_min PosInfinity (Finite b # ys) = Decimal_min (Finite b) ys"
  "Decimal_min NegInfinity (Finite b # ys) = Decimal_min NegInfinity ys"
  "Decimal_min (Finite a) (NegInfinity # ys) = Decimal_min NegInfinity ys"
  "Decimal_min (Finite a) (PosInfinity # ys) = Decimal_min (Finite a) ys"
  "Decimal_min (Finite a) (NaN # ys) = NaN"
  using Decimal_min_NaN [of ys] by (simp_all add: Decimal_min_def min_def)

lemma Decimal_max_Nil: "Decimal_max x [] = x"
  by (simp add: Decimal_max_def)

lemma Decimal_max_zero:
  "Decimal_max (Finite 0) [Finite m] = Finite (max 0 m)"
  "Decimal_max (Finite 0) [NegInfinity] = Finite 0"
  "Decimal_max (Finite 0) [PosInfinity] = PosInfinity"
  "Decimal_max (Finite 0) [NaN] = NaN"
  by (simp_all add: Decimal_max_def Decimal_lt_def max_def)

lemmas Decimal_min_max = Decimal_min_Nil Decimal_min_NaN Decimal_min_Cons Decimal_max_zero

lemma getMintFactor_pos: "0 < getMintFactor r"
  by (simp add: getMintFactor_def)

subsection \<open>Largest withdrawal\<close>

text \<open>
  The two branches that do not depend on the order of two different values: with no
  borrow-factor-adjusted debt the whole position is returned, and with a debt equal to
  the borrow limit 0 is returned.
\<close>

lemma getMaxWithdrawAmount_no_debt:
  assumes "getReserveByMint market mint = Some r"
    and "getDepositByReserve ob (address r) = Some p"
    and "userTotalBorrowBorrowFactorAdjusted (refreshedStats ob) = 0"
  shows "getMaxWithdrawAmount U ob market mint slot = Inr (Finite (amount p))"
  using assms by (simp add: getMaxWithdrawAmount_def)

lemma getMaxWithdrawAmount_at_limit:
  assumes "getReserveByMint market mint = Some r"
    and "getDepositByReserve ob (address r) = Some p"
    and "userTotalBorrowBorrowFactorAdjusted (refreshedStats ob) \<noteq> 0"
    and "userTotalBorrowBorrowFactorAdjusted (refreshedStats ob)
           = borrowLimit (refreshedStats ob)"
  shows "getMaxWithdrawAmount U ob market mint slot = Inr (Finite 0)"
  using assms by (simp add: getMaxWithdrawAmount_def Let_def Decimal_greaterOrEqual_refl)

text \<open>
  The remaining branch, in terms of what the operator answers: when \<^verbatim>\<open>>=\<close> answers no,
  the maximum loan-to-value is not 0 and the price is not 0, the result is the formula
  of the claim. With a price of 0 and a debt below the limit the quotient is
  \<^verbatim>\<open>Infinity\<close>, and the result is the smallest of the deposit, the available liquidity
  and the rest of the withdrawal cap.
\<close>

lemma getMaxWithdrawAmount_formula:
  assumes "getReserveByMint market mint = Some r"
    and "getDepositByReserve ob (address r) = Some p"
    and "userTotalBorrowBorrowFactorAdjusted (refreshedStats ob) \<noteq> 0"
    and "\<not> Decimal_greaterOrEqual
             (userTotalBorrowBorrowFactorAdjusted (refreshedStats ob))
             (borrowLimit (refreshedStats ob))"
    and "elevationGroup ob = 0"
    and "loanToValuePct (stats r) \<noteq> 0"
    and "getOracleMarketPrice r \<noteq> 0"
  shows "getMaxWithdrawAmount U ob market mint slot
     = Inr (Finite (max 0
             (min (amount p)
               (min ((borrowLimit (refreshedStats ob)
                        - userTotalBorrowBorrowFactorAdjusted (refreshedStats ob))
                       / loanToValuePct (stats r) * (995 / 1000)
                       / getOracleMarketPrice r * getMintFactor r)
                 (min (getLiquidityAvailableAmount r)
                    (getDepositWithdrawalCapCapacity r
                       - getDepositWithdrawalCapCurrent U r slot))))))"
  using assms by (simp add: getMaxWithdrawAmount_def Let_def Decimal_min_max min.assoc)

lemma getMaxWithdrawAmount_zero_price:
  assumes "getReserveByMint market mint = Some r"
    and "getDepositByReserve ob (address r) = Some p"
    and "userTotalBorrowBorrowFactorAdjusted (refreshedStats ob) \<noteq> 0"
    and "\<not> Decimal_greaterOrEqual
             (userTotalBorrowBorrowFactorAdjusted (refreshedStats ob))
             (borrowLimit (refreshedStats ob))"
    and "elevationGroup ob = 0"
    and "0 < loanToValuePct (stats r)"
    and "userTotalBorrowBorrowFactorAdjusted (refreshedStats ob)
           < borrowLimit (refreshedStats ob)"
    and "getOracleMarketPrice r = 0"
  shows "getMaxWithdrawAmount U ob market mint slot
     = Inr (Finite (max 0
             (min (amount p)
               (min (getLiquidityAvailableAmount r)
                  (getDepositWithdrawalCapCapacity r
                     - getDepositWithdrawalCapCurrent U r slot)))))"
proof -
  have "0 < (borrowLimit (refreshedStats ob)
               - userTotalBorrowBorrowFactorAdjusted (refreshedStats ob))
             / loanToValuePct (stats r) * (995 / 1000)"
    using assms(6,7) by simp
  then show ?thesis
    using assms getMintFactor_pos [of r]
    by (simp add: getMaxWithdrawAmount_def Let_def Decimal_min_max min.assoc)
qed

text \<open>
  Claim C4 on the obligation with a deposit of 20, a borrow-factor-adjusted debt of 9 and
  a borrow limit of 10, in a reserve with a loan-to-value of 50%, price 1, 1000 available
  and a withdrawal cap of 1000000. The debt is below the limit, and the claim gives
  \<open>(10 - 9) / 0.5 \<times> 0.995 = 1.99\<close>. The operator \<^verbatim>\<open>>=\<close> compares the strings "9" and
  "10", finds "9" the greater, and the function returns 0.
\<close>

theorem getMaxWithdrawAmount_below_limit:
  "userTotalBorrowBorrowFactorAdjusted (refreshedStats obligation2) = 9
   \<and> borrowLimit (refreshedStats obligation2) = 10
   \<and> Decimal_valueOf 9 = ''9'' \<and> Decimal_valueOf 10 = ''10''
   \<and> Decimal_greaterOrEqual 9 10
   \<and> getMaxWithdrawAmount utils0 obligation2 market0 11 100 = Inr (Finite 0)
   \<and> max 0 (min 20 (min ((10 - 9) / (1 / 2) * (995 / 1000) / 1 * 1) (min 1000 (1000000 - 0))))
       = (199 / 100 :: rat)"
proof -
  have ge: "Decimal_greaterOrEqual 9 10"
    by (simp add: Decimal_greaterOrEqual_def Decimal_valueOf_9_10)
  have "getMaxWithdrawAmount utils0 obligation2 market0 11 100 = Inr (Finite 0)"
    by (simp add: getMaxWithdrawAmount_def market0_def getDepositByReserve_def obligation2_def
        stats2_def reserve0_values ge Let_def)
  then show ?thesis
    using ge by (simp add: Decimal_valueOf_9_10 obligation2_def stats2_def)
qed

subsection \<open>Largest borrow\<close>

lemma net_of_fee:
  fixes f m :: rat
  assumes "0 \<le> f"
  shows "m - m * (f / (f + 1)) = m / (f + 1)"
proof -
  have "f + 1 \<noteq> 0" using assms by simp
  then show ?thesis by (simp add: field_simps)
qed

lemma net_of_fee_mono:
  fixes f m m' :: rat
  assumes "0 \<le> f" "m \<le> m'"
  shows "max 0 (m - m * (f / (f + 1))) \<le> max 0 (m' - m' * (f / (f + 1)))"
proof -
  have "m / (f + 1) \<le> m' / (f + 1)"
    using assms by (intro divide_right_mono) simp_all
  then show ?thesis
    unfolding net_of_fee [OF assms(1)] by (simp add: max.coboundedI2)
qed

lemma net_of_fee_negative:
  fixes f m :: rat
  assumes "0 \<le> f" "m \<le> 0"
  shows "max 0 (m - m * (f / (f + 1))) = 0"
proof -
  have "m / (f + 1) \<le> 0"
    using assms by (simp add: divide_nonpos_pos)
  then show ?thesis
    unfolding net_of_fee [OF assms(1)] by simp
qed

lemma getBorrowFee_nonneg: "0 \<le> getBorrowFee r"
  by (simp add: getBorrowFee_def Fraction_toDecimal_def)

text \<open>
  The amount net of the origination fee, on each kind of value: on a finite amount it
  is finite; on \<^verbatim>\<open>-Infinity\<close> the fee is \<^verbatim>\<open>-Infinity\<close> or NaN and the difference is NaN.
\<close>

lemma net_amount_Finite:
  assumes "0 \<le> f"
  shows "Decimal_max (Finite 0)
           [Decimal_sub (Finite m)
              (Decimal_mul (Finite m) (Decimal_div (Finite f) (Finite (f + 1))))]
         = Finite (max 0 (m - m * (f / (f + 1))))"
proof -
  have "f + 1 \<noteq> 0" using assms by simp
  then show ?thesis by (simp add: Decimal_max_zero)
qed

lemma net_amount_NegInfinity:
  assumes "0 \<le> f"
  shows "Decimal_max (Finite 0)
           [Decimal_sub NegInfinity
              (Decimal_mul NegInfinity (Decimal_div (Finite f) (Finite (f + 1))))]
         = NaN"
proof -
  have "f + 1 \<noteq> 0" using assms by simp
  moreover have "0 \<le> f / (f + 1)"
    using assms by (intro divide_nonneg_nonneg) simp_all
  then have "\<not> f / (f + 1) < 0" by simp
  ultimately show ?thesis by (simp add: Decimal_max_zero)
qed

lemma net_amount_NaN:
  "Decimal_max (Finite 0) [Decimal_sub NaN (Decimal_mul NaN y)] = NaN"
  by (simp add: Decimal_max_zero)

text \<open>
  With a price that is not zero, and a borrow factor that is not zero or an obligation
  in one of the reserve's elevation groups, the result is a finite amount: NaN comes
  from a zero divisor only.
\<close>

lemma getMaxBorrowAmount_finite:
  assumes "getReserveByMint market mint = Some r"
    and "getOracleMarketPrice r \<noteq> 0"
    and "(elevationGroup ob \<in> set (elevationGroups (config (state r)))
            \<and> elevationGroup ob \<noteq> 0)
         \<or> borrowFactorPct (config (state r)) \<noteq> 0"
  shows "\<exists>x. getMaxBorrowAmount U ob market mint slot = Inr (Finite x) \<and> 0 \<le> x"
proof -
  have bf: "(if elevationGroup ob \<in> set (elevationGroups (config (state r)))
                  \<and> elevationGroup ob \<noteq> 0
             then 1 else getBorrowFactor r) \<noteq> 0"
    using assms(3) by (auto simp: getBorrowFactor_def)
  have fee: "getBorrowFee r + 1 \<noteq> 0"
    using getBorrowFee_nonneg [of r] by simp
  show ?thesis
    using assms(1,2) bf
    by (cases "0 < getDebtWithdrawalCapCapacity r")
      (simp_all add: getMaxBorrowAmount_def Let_def Decimal_min_max fee
        split del: if_split cong: if_cong)
qed

text \<open>
  What the function returns where a divisor is zero, on the reserve with a borrow factor
  of 0 and the obligation with a borrow limit of 10. With a debt of 9 the borrowing power
  is \<^verbatim>\<open>Infinity\<close> and the result is the smallest of the other bounds, 1000; with a debt of
  11 the power is \<^verbatim>\<open>-Infinity\<close> and the result is NaN, while a borrow factor of 100% gives
  0 for the same obligation.
\<close>

lemma getMaxBorrowAmount_zero_factor:
  "getMaxBorrowAmount utils0 (obligationWithDebt 9) (marketWith (reserveWithFactor 0)) 11 100
     = Inr (Finite 1000)"
  "getMaxBorrowAmount utils0 (obligationWithDebt 11) (marketWith (reserveWithFactor 0)) 11 100
     = Inr NaN"
  "getMaxBorrowAmount utils0 (obligationWithDebt 11) (marketWith (reserveWithFactor 100)) 11 100
     = Inr (Finite 0)"
  by (simp_all add: getMaxBorrowAmount_def marketWith_def market0_def obligationWithDebt_def
      obligation2_def stats2_def Let_def reserve_getters reserveWithFactor_def reserve0_def
      caps0_def Decimal_min_max)

text \<open>
  Claim C5. For an obligation, a mint and a slot held fixed, and a market whose reserve
  for the mint is \<open>r\<close>, \<^verbatim>\<open>getMaxBorrowAmount\<close> returns a value \<open>a\<close>, which is a finite amount
  or NaN. In every market that resolves the mint to \<open>r\<close> with a larger \<^verbatim>\<open>borrowLimit\<close> it
  returns a value that is not less than \<open>a\<close>: both are NaN, or both are amounts and the new
  one is at least the old one. In every market that resolves the mint to \<open>r\<close> with a larger
  \<^verbatim>\<open>borrowFactorPct\<close> it returns a value that is not greater than \<open>a\<close>: \<open>a\<close> is NaN, or both
  are amounts and the new one is at most the old one.
\<close>

theorem getMaxBorrowAmount_monotone:
  assumes found: "getReserveByMint market mint = Some r"
  shows "\<exists>a. getMaxBorrowAmount U ob market mint slot = Inr a
     \<and> (\<forall>market' L'.
            getReserveByMint market' mint
              = Some (r \<lparr> state := (state r) \<lparr> config := (config (state r))
                                  \<lparr> ReserveConfig.borrowLimit := L' \<rparr> \<rparr> \<rparr>)
            \<and> ReserveConfig.borrowLimit (config (state r)) \<le> L'
          \<longrightarrow> (\<exists>a'. getMaxBorrowAmount U ob market' mint slot = Inr a'
                  \<and> \<not> Decimal_lt a' a
                  \<and> ((a = NaN \<and> a' = NaN)
                       \<or> (\<exists>x x'. a = Finite x \<and> a' = Finite x' \<and> x \<le> x'))))
     \<and> (\<forall>market' F'.
            getReserveByMint market' mint
              = Some (r \<lparr> state := (state r) \<lparr> config := (config (state r))
                                  \<lparr> borrowFactorPct := F' \<rparr> \<rparr> \<rparr>)
            \<and> borrowFactorPct (config (state r)) \<le> F'
          \<longrightarrow> (\<exists>a'. getMaxBorrowAmount U ob market' mint slot = Inr a'
                  \<and> \<not> Decimal_gt a' a
                  \<and> (a = NaN
                       \<or> (\<exists>x x'. a = Finite x \<and> a' = Finite x' \<and> x' \<le> x))))"
proof -
  let ?r1 = "\<lambda>L'. r \<lparr> state := (state r) \<lparr> config := (config (state r))
                                  \<lparr> ReserveConfig.borrowLimit := L' \<rparr> \<rparr> \<rparr>"
  let ?r2 = "\<lambda>F'. r \<lparr> state := (state r) \<lparr> config := (config (state r))
                                  \<lparr> borrowFactorPct := F' \<rparr> \<rparr> \<rparr>"
  define act where "act = (\<lambda>x :: KaminoReserve. elevationGroup ob \<in> set (elevationGroups (config (state x)))
                         \<and> elevationGroup ob \<noteq> 0)"
  define q where "q = (borrowLimit (refreshedStats ob)
                         - userTotalBorrowBorrowFactorAdjusted (refreshedStats ob))"
  define P where "P = (\<lambda>(x :: KaminoReserve) bf.
      Decimal_mul (Decimal_div (Decimal_div (Finite q) (Finite bf))
                     (Finite (getOracleMarketPrice x)))
        (Finite (getMintFactor x)))"
  define M where "M = (\<lambda>(x :: KaminoReserve) pw cap. Decimal_min pw
                [Finite (getLiquidityAvailableAmount x),
                 Finite (if disableUsageAsCollOutsideEmode (config (state x)) = 1 \<and> \<not> act x
                         then 0 else cap)])"
  define W where "W = (\<lambda>(x :: KaminoReserve) m. if getDebtWithdrawalCapCapacity x > 0
                then Decimal_min m [Finite (getDebtWithdrawalCapCapacity x
                                              - getDebtWithdrawalCapCurrent U x slot)]
                else m)"
  define N where "N = (\<lambda>(x :: KaminoReserve) m. Decimal_max (Finite 0)
                [Decimal_sub m (Decimal_mul m
                   (Decimal_div (Finite (getBorrowFee x)) (Finite (getBorrowFee x + 1))))])"
  define G where "G = (\<lambda>(x :: KaminoReserve) bf cap. N x (W x (M x (P x bf) cap)))"
  have unfolded: "getMaxBorrowAmount U ob mk mint slot
      = Inr (G x (if act x then 1 else getBorrowFactor x)
                 (reserveBorrowLimit (stats x) - getBorrowedAmount x))"
    if "getReserveByMint mk mint = Some x" for mk x
    using that
    by (simp add: getMaxBorrowAmount_def Let_def G_def N_def W_def M_def P_def act_def q_def
        split del: if_split cong: if_cong)
  have same1: "act (?r1 L') = act r" "M (?r1 L') = M r" "W (?r1 L') = W r" "N (?r1 L') = N r"
    "P (?r1 L') = P r"
    "getBorrowFactor (?r1 L') = getBorrowFactor r"
    "getBorrowedAmount (?r1 L') = getBorrowedAmount r"
    "reserveBorrowLimit (stats (?r1 L')) = of_nat L'" for L'
    by (simp_all add: act_def M_def W_def N_def P_def reserve_getters cong: if_cong)
  have same2: "act (?r2 F') = act r" "M (?r2 F') = M r" "W (?r2 F') = W r" "N (?r2 F') = N r"
    "P (?r2 F') = P r"
    "getBorrowFactor (?r2 F') = of_nat F' / 100"
    "getBorrowedAmount (?r2 F') = getBorrowedAmount r"
    "reserveBorrowLimit (stats (?r2 F')) = reserveBorrowLimit (stats r)" for F'
    by (simp_all add: act_def M_def W_def N_def P_def reserve_getters cong: if_cong)
  have G1: "G (?r1 L') = G r" for L'
    unfolding G_def same1 ..
  have G2: "G (?r2 F') = G r" for F'
    unfolding G_def same2 ..
  have fee: "0 \<le> getBorrowFee r" by (rule getBorrowFee_nonneg)

  define Ar where "Ar = (\<lambda>cap. min (getLiquidityAvailableAmount r)
                (if disableUsageAsCollOutsideEmode (config (state r)) = 1 \<and> \<not> act r
                 then 0 else cap))"
  define Wr where "Wr = (\<lambda>m :: rat. if getDebtWithdrawalCapCapacity r > 0
                then min m (getDebtWithdrawalCapCapacity r
                              - getDebtWithdrawalCapCurrent U r slot)
                else m)"
  define Nr where "Nr = (\<lambda>m :: rat. max 0 (m - m * (getBorrowFee r / (getBorrowFee r + 1))))"
  define t where "t = (\<lambda>p c. Nr (Wr (min p (Ar c))))"
  define tinf where "tinf = (\<lambda>c. Nr (Wr (Ar c)))"
  have M_cases: "M r (Finite p) c = Finite (min p (Ar c))" "M r PosInfinity c = Finite (Ar c)"
    "M r NegInfinity c = NegInfinity" "M r NaN c = NaN" for p c
    by (simp_all add: M_def Ar_def Decimal_min_max)
  have W_cases: "W r (Finite m) = Finite (Wr m)" "W r NegInfinity = NegInfinity"
    "W r NaN = NaN" for m
    by (simp_all add: W_def Wr_def Decimal_min_max)
  have N_cases: "N r (Finite m) = Finite (Nr m)" "N r NegInfinity = NaN" "N r NaN = NaN" for m
    unfolding N_def Nr_def
    by (rule net_amount_Finite [OF fee], rule net_amount_NegInfinity [OF fee],
        rule net_amount_NaN)
  define T where "T = (\<lambda>pw c. N r (W r (M r pw c)))"
  have T_cases: "T (Finite p) c = Finite (t p c)" "T PosInfinity c = Finite (tinf c)"
    "T NegInfinity c = NaN" "T NaN c = NaN" for p c
    by (simp_all add: T_def t_def tinf_def M_cases W_cases N_cases)
  have G_T: "G r bf c = T (P r bf) c" for bf c
    by (simp add: G_def T_def)
  have Ar_mono: "Ar c \<le> Ar c'" if "c \<le> c'" for c c'
    unfolding Ar_def by (intro min.mono order_refl) (use that in auto)
  have Wr_mono: "Wr m \<le> Wr m'" if "m \<le> m'" for m m'
    unfolding Wr_def using that by (simp add: min.coboundedI1)
  have Wr_le: "Wr m \<le> m" for m
    unfolding Wr_def by simp
  have Nr_mono: "Nr m \<le> Nr m'" if "m \<le> m'" for m m'
    unfolding Nr_def using fee that by (rule net_of_fee_mono)
  have Nr_neg: "Nr m = 0" if "m \<le> 0" for m
    unfolding Nr_def using fee that by (rule net_of_fee_negative)
  have t_mono: "t p c \<le> t p' c'" if "p \<le> p'" "c \<le> c'" for p p' c c'
    unfolding t_def using that by (intro Nr_mono Wr_mono min.mono Ar_mono)
  have tinf_mono: "tinf c \<le> tinf c'" if "c \<le> c'" for c c'
    unfolding tinf_def using that by (intro Nr_mono Wr_mono Ar_mono)
  have t_le_tinf: "t p c \<le> tinf c" for p c
    unfolding t_def tinf_def by (intro Nr_mono Wr_mono) simp
  have t_neg: "t p c = 0" if "p \<le> 0" for p c
  proof -
    have "min p (Ar c) \<le> 0" using that by (simp add: min.coboundedI1)
    then have "Wr (min p (Ar c)) \<le> 0" by (rule order_trans [OF Wr_le])
    then show ?thesis unfolding t_def by (rule Nr_neg)
  qed
  have T_range: "T pw c = NaN \<or> (\<exists>x. T pw c = Finite x)" for pw c
    by (cases pw) (simp_all add: T_cases)
  have T_cap: "(T pw c = NaN \<and> T pw c' = NaN)
      \<or> (\<exists>x x'. T pw c = Finite x \<and> T pw c' = Finite x' \<and> x \<le> x')" if "c \<le> c'" for pw c c'
    using that by (cases pw) (simp_all add: T_cases t_mono tinf_mono)

  let ?price = "getOracleMarketPrice r"
  have mf: "0 < getMintFactor r" by (rule getMintFactor_pos)
  have P_fin: "P r bf = Finite (q / bf / ?price * getMintFactor r)"
    if "bf \<noteq> 0" "?price \<noteq> 0" for bf
    using that by (simp add: P_def)
  have P_price0: "P r bf = (if q = 0 then NaN else if 0 < q then PosInfinity else NegInfinity)"
    if "0 < bf" "?price = 0" for bf
    using that mf by (simp add: P_def zero_less_divide_iff)
  have P_bf0: "P r 0 = (if q = 0 then NaN
                        else if (0 < q) = (?price < 0) then NegInfinity else PosInfinity)"
    using mf by (simp add: P_def)
  let ?k = "q / ?price * getMintFactor r"
  have swap: "q / b / ?price * getMintFactor r = ?k / b" for b
    by (simp add: mult.commute)
  have t_bf: "t (q / bf' / ?price * getMintFactor r) c \<le> t (q / bf / ?price * getMintFactor r) c"
    if "0 < bf" "bf \<le> bf'" for bf bf' c
  proof (cases "0 \<le> ?k")
    case True
    have "?k / bf' \<le> ?k / bf"
      using True order_refl that by (rule frac_le)
    then have "q / bf' / ?price * getMintFactor r \<le> q / bf / ?price * getMintFactor r"
      by (simp only: swap)
    then show ?thesis by (rule t_mono) simp
  next
    case False
    have "t (q / b / ?price * getMintFactor r) c = 0" if "0 < b" for b
    proof -
      have "?k \<le> 0" using False by simp
      then have "?k / b \<le> 0"
        using that by (rule divide_nonpos_pos)
      then have "q / b / ?price * getMintFactor r \<le> 0"
        by (simp only: swap)
      then show ?thesis by (rule t_neg)
    qed
    then show ?thesis using that by simp
  qed
  have G_bf: "G r bf c = NaN \<or> (\<exists>x x'. G r bf c = Finite x \<and> G r bf' c = Finite x' \<and> x' \<le> x)"
    if "0 \<le> bf" "bf \<le> bf'" for bf bf' c
  proof (cases "bf = bf'")
    case True
    then show ?thesis using T_range [of "P r bf" c] by (auto simp: G_T)
  next
    case differ: False
    then have pos': "0 < bf'" using that by simp
    show ?thesis
    proof (cases "bf = 0")
      case zero: True
      show ?thesis
      proof (cases "P r 0 = PosInfinity")
        case False
        then have "P r 0 = NaN \<or> P r 0 = NegInfinity"
          unfolding P_bf0 by (simp split: if_splits)
        then have "G r bf c = NaN"
          unfolding G_T zero by (auto simp: T_cases)
        then show ?thesis by simp
      next
        case True
        then have old: "G r bf c = Finite (tinf c)"
          unfolding G_T zero by (simp add: T_cases)
        from True have sign: "q \<noteq> 0" "(0 < q) \<noteq> (?price < 0)"
          unfolding P_bf0 by (simp_all split: if_splits)
        show ?thesis
        proof (cases "?price = 0")
          case True
          then have "0 < q" using sign by simp
          then have "P r bf' = PosInfinity"
            using P_price0 [OF pos' True] by simp
          then have "G r bf' c = Finite (tinf c)"
            unfolding G_T by (simp add: T_cases)
          then show ?thesis using old by simp
        next
          case False
          have ne': "bf' \<noteq> 0" using pos' by simp
          have "G r bf' c = Finite (t (q / bf' / ?price * getMintFactor r) c)"
            unfolding G_T P_fin [OF ne' False] by (simp add: T_cases)
          then show ?thesis using old t_le_tinf by simp
        qed
      qed
    next
      case False
      then have pos: "0 < bf" using that by simp
      show ?thesis
      proof (cases "?price = 0")
        case True
        have "P r bf' = P r bf"
          unfolding P_price0 [OF pos True] P_price0 [OF pos' True] ..
        then show ?thesis using T_range [of "P r bf" c] by (auto simp: G_T)
      next
        case False
        have ne: "bf \<noteq> 0" "bf' \<noteq> 0" using pos pos' by simp_all
        have "G r bf c = Finite (t (q / bf / ?price * getMintFactor r) c)"
          "G r bf' c = Finite (t (q / bf' / ?price * getMintFactor r) c)"
          unfolding G_T P_fin [OF ne(1) False] P_fin [OF ne(2) False]
          by (simp_all add: T_cases)
        then show ?thesis using t_bf [OF pos that(2)] by simp
      qed
    qed
  qed

  define bf0 where "bf0 = (if act r then 1 else getBorrowFactor r)"
  define c0 where "c0 = reserveBorrowLimit (stats r) - getBorrowedAmount r"
  have limit_r: "reserveBorrowLimit (stats r)
      = of_nat (ReserveConfig.borrowLimit (config (state r)))"
    by (simp add: stats_def formatReserveData_def)
  have factor_r: "getBorrowFactor r = of_nat (borrowFactorPct (config (state r))) / 100"
    by (simp add: getBorrowFactor_def)
  show ?thesis
  proof (rule exI [of _ "G r bf0 c0"], intro conjI allI impI)
    show "getMaxBorrowAmount U ob market mint slot = Inr (G r bf0 c0)"
      using unfolded [OF found] by (simp add: bf0_def c0_def)
  next
    fix market' :: KaminoMarket and L'
    assume h: "getReserveByMint market' mint = Some (?r1 L')
            \<and> ReserveConfig.borrowLimit (config (state r)) \<le> L'"
    then have "getMaxBorrowAmount U ob market' mint slot
        = Inr (G (?r1 L') (if act (?r1 L') then 1 else getBorrowFactor (?r1 L'))
                 (reserveBorrowLimit (stats (?r1 L')) - getBorrowedAmount (?r1 L')))"
      using unfolded by blast
    then have new: "getMaxBorrowAmount U ob market' mint slot
        = Inr (G r bf0 (of_nat L' - getBorrowedAmount r))"
      unfolding same1 G1 bf0_def .
    have "c0 \<le> of_nat L' - getBorrowedAmount r"
      using h by (simp add: c0_def limit_r)
    then have rel: "(G r bf0 c0 = NaN \<and> G r bf0 (of_nat L' - getBorrowedAmount r) = NaN)
        \<or> (\<exists>x x'. G r bf0 c0 = Finite x
              \<and> G r bf0 (of_nat L' - getBorrowedAmount r) = Finite x' \<and> x \<le> x')"
      unfolding G_T by (rule T_cap)
    then have "\<not> Decimal_lt (G r bf0 (of_nat L' - getBorrowedAmount r)) (G r bf0 c0)"
      by (auto simp: Decimal_lt_def)
    then show "\<exists>a'. getMaxBorrowAmount U ob market' mint slot = Inr a'
        \<and> \<not> Decimal_lt a' (G r bf0 c0)
        \<and> ((G r bf0 c0 = NaN \<and> a' = NaN)
             \<or> (\<exists>x x'. G r bf0 c0 = Finite x \<and> a' = Finite x' \<and> x \<le> x'))"
      using new rel by simp
  next
    fix market' :: KaminoMarket and F'
    assume h: "getReserveByMint market' mint = Some (?r2 F')
            \<and> borrowFactorPct (config (state r)) \<le> F'"
    then have "getMaxBorrowAmount U ob market' mint slot
        = Inr (G (?r2 F') (if act (?r2 F') then 1 else getBorrowFactor (?r2 F'))
                 (reserveBorrowLimit (stats (?r2 F')) - getBorrowedAmount (?r2 F')))"
      using unfolded by blast
    then have new: "getMaxBorrowAmount U ob market' mint slot
        = Inr (G r (if act r then 1 else of_nat F' / 100) c0)"
      unfolding same2 G2 c0_def .
    have "0 \<le> bf0" "bf0 \<le> (if act r then 1 else of_nat F' / 100)"
      using h by (simp_all add: bf0_def factor_r divide_right_mono)
    then have rel: "G r bf0 c0 = NaN
        \<or> (\<exists>x x'. G r bf0 c0 = Finite x
              \<and> G r (if act r then 1 else of_nat F' / 100) c0 = Finite x' \<and> x' \<le> x)"
      by (rule G_bf)
    then have "\<not> Decimal_gt (G r (if act r then 1 else of_nat F' / 100) c0) (G r bf0 c0)"
      by (cases "G r (if act r then 1 else of_nat F' / 100) c0") auto
    then show "\<exists>a'. getMaxBorrowAmount U ob market' mint slot = Inr a'
        \<and> \<not> Decimal_gt a' (G r bf0 c0)
        \<and> (G r bf0 c0 = NaN
             \<or> (\<exists>x x'. G r bf0 c0 = Finite x \<and> a' = Finite x' \<and> x' \<le> x))"
      using new rel by simp
  qed
qed

theorem getMaxBorrowAmount_monotone_witness:
  "getReserveByMint (marketWith (reserveWithFactor 0)) 11 = Some (reserveWithFactor 0)
   \<and> (\<exists>a. getMaxBorrowAmount utils0 obligation2 (marketWith (reserveWithFactor 0)) 11 100
            = Inr a
        \<and> a = Finite 1000
        \<and> ReserveConfig.borrowLimit (config (state (reserveWithFactor 0))) \<le> 6000
        \<and> (\<exists>a'. getMaxBorrowAmount utils0 obligation2
                    (marketWith ((reserveWithFactor 0)
                       \<lparr> state := (state (reserveWithFactor 0))
                           \<lparr> config := (config (state (reserveWithFactor 0)))
                               \<lparr> ReserveConfig.borrowLimit := 6000 \<rparr> \<rparr> \<rparr>)) 11 100 = Inr a'
                 \<and> \<not> Decimal_lt a' a
                 \<and> ((a = NaN \<and> a' = NaN)
                      \<or> (\<exists>x x'. a = Finite x \<and> a' = Finite x' \<and> x \<le> x')))
        \<and> borrowFactorPct (config (state (reserveWithFactor 0))) \<le> 100
        \<and> (\<exists>a'. getMaxBorrowAmount utils0 obligation2
                    (marketWith ((reserveWithFactor 0)
                       \<lparr> state := (state (reserveWithFactor 0))
                           \<lparr> config := (config (state (reserveWithFactor 0)))
                               \<lparr> borrowFactorPct := 100 \<rparr> \<rparr> \<rparr>)) 11 100 = Inr a'
                 \<and> a' = Finite 1
                 \<and> \<not> Decimal_gt a' a
                 \<and> (a = NaN
                      \<or> (\<exists>x x'. a = Finite x \<and> a' = Finite x' \<and> x' \<le> x))))"
proof -
  let ?r = "reserveWithFactor 0"
  have resolves: "getReserveByMint (marketWith x) 11 = Some x" for x
    by (simp add: marketWith_def)
  have le: "ReserveConfig.borrowLimit (config (state ?r)) \<le> 6000"
      "borrowFactorPct (config (state ?r)) \<le> 100"
    by (simp_all add: reserveWithFactor_def reserve0_def)
  have old: "getMaxBorrowAmount utils0 obligation2 (marketWith ?r) 11 100 = Inr (Finite 1000)"
    by (simp add: getMaxBorrowAmount_def marketWith_def market0_def obligation2_def stats2_def
        Let_def reserve_getters reserveWithFactor_def reserve0_def caps0_def Decimal_min_max)
  have new: "getMaxBorrowAmount utils0 obligation2
               (marketWith (?r \<lparr> state := (state ?r)
                    \<lparr> config := (config (state ?r)) \<lparr> borrowFactorPct := 100 \<rparr> \<rparr> \<rparr>)) 11 100
             = Inr (Finite 1)"
    by (simp add: getMaxBorrowAmount_def marketWith_def market0_def obligation2_def stats2_def
        Let_def reserve_getters reserveWithFactor_def reserve0_def caps0_def Decimal_min_max)
  let ?m1 = "marketWith (?r \<lparr> state := (state ?r)
                 \<lparr> config := (config (state ?r)) \<lparr> ReserveConfig.borrowLimit := 6000 \<rparr> \<rparr> \<rparr>)"
  let ?m2 = "marketWith (?r \<lparr> state := (state ?r)
                 \<lparr> config := (config (state ?r)) \<lparr> borrowFactorPct := 100 \<rparr> \<rparr> \<rparr>)"
  obtain a where main:
    "getMaxBorrowAmount utils0 obligation2 (marketWith ?r) 11 100 = Inr a
     \<and> (\<forall>market' L'.
            getReserveByMint market' 11
              = Some (?r \<lparr> state := (state ?r) \<lparr> config := (config (state ?r))
                                  \<lparr> ReserveConfig.borrowLimit := L' \<rparr> \<rparr> \<rparr>)
            \<and> ReserveConfig.borrowLimit (config (state ?r)) \<le> L'
          \<longrightarrow> (\<exists>a'. getMaxBorrowAmount utils0 obligation2 market' 11 100 = Inr a'
                  \<and> \<not> Decimal_lt a' a
                  \<and> ((a = NaN \<and> a' = NaN)
                       \<or> (\<exists>x x'. a = Finite x \<and> a' = Finite x' \<and> x \<le> x'))))
     \<and> (\<forall>market' F'.
            getReserveByMint market' 11
              = Some (?r \<lparr> state := (state ?r) \<lparr> config := (config (state ?r))
                                  \<lparr> borrowFactorPct := F' \<rparr> \<rparr> \<rparr>)
            \<and> borrowFactorPct (config (state ?r)) \<le> F'
          \<longrightarrow> (\<exists>a'. getMaxBorrowAmount utils0 obligation2 market' 11 100 = Inr a'
                  \<and> \<not> Decimal_gt a' a
                  \<and> (a = NaN
                       \<or> (\<exists>x x'. a = Finite x \<and> a' = Finite x' \<and> x' \<le> x))))"
    using getMaxBorrowAmount_monotone [where r = "reserveWithFactor 0"
        and market = "marketWith (reserveWithFactor 0)" and mint = 11 and U = utils0
        and ob = obligation2 and slot = 100, OF resolves] ..
  note a = main [THEN conjunct1]
    and limit = main [THEN conjunct2, THEN conjunct1, rule_format]
    and factor = main [THEN conjunct2, THEN conjunct2, rule_format]
  have value_a: "a = Finite 1000"
    using a old by simp
  have first: "\<exists>a'. getMaxBorrowAmount utils0 obligation2 ?m1 11 100 = Inr a'
      \<and> \<not> Decimal_lt a' a
      \<and> ((a = NaN \<and> a' = NaN) \<or> (\<exists>x x'. a = Finite x \<and> a' = Finite x' \<and> x \<le> x'))"
    by (rule limit [of _ 6000]) (simp add: resolves le)
  have "\<exists>a'. getMaxBorrowAmount utils0 obligation2 ?m2 11 100 = Inr a'
      \<and> \<not> Decimal_gt a' a
      \<and> (a = NaN \<or> (\<exists>x x'. a = Finite x \<and> a' = Finite x' \<and> x' \<le> x))"
    by (rule factor [of _ 100]) (simp add: resolves le)
  then have second: "\<exists>a'. getMaxBorrowAmount utils0 obligation2 ?m2 11 100 = Inr a'
      \<and> a' = Finite 1
      \<and> \<not> Decimal_gt a' a
      \<and> (a = NaN \<or> (\<exists>x x'. a = Finite x \<and> a' = Finite x' \<and> x' \<le> x))"
    using new by auto
  show ?thesis
    using resolves [of ?r] a value_a le first second by blast
qed

end
